theory Spec2Isabelle
  imports Complex_Main "HOL-Library.Signed_Division"
begin

section \<open>The mock metrics endpoint: data model\<close>

text \<open>
  The configuration structs of \<^verbatim>\<open>main.go\<close> are records with the fields of the
  source. A \<^verbatim>\<open>float64\<close> of the configuration is modelled by the real number it
  denotes, and the arithmetic on it by the arithmetic of the reals: rounding and
  infinities are outside the model. Strings are byte lists.
\<close>

record Param =
  Name :: string
  Value :: string

record MetricInfo =
  Type :: string
  Rate :: real
  Shift :: real
  Multiplier :: real
  Alpha :: real
  Beta :: real

record VersionInfo =
  Params :: "Param list"
  Metric :: MetricInfo

text \<open>
  \<^verbatim>\<open>Headers\<close> is a Go map. The only thing the source does with it is to range over
  it, in an order Go leaves unspecified, so it is the list of its entries in the order
  the loop visits them.
\<close>

record URIConf =
  Versions :: "VersionInfo list"
  Headers :: "(string \<times> string) list"
  URI :: string
  Provider :: string

text \<open>
  Of an incoming request the source reads the query of the URL and the headers.
  \<^verbatim>\<open>RawQuery\<close> is the sequence of decoded \<^verbatim>\<open>key=value\<close> pairs of the URL, in the
  order they are written; \<^verbatim>\<open>Header\<close> maps a canonical header name to its values.
\<close>

record Request =
  RawQuery :: "(string \<times> string) list"
  Header :: "string \<rightharpoonup> string list"

text \<open>
  A panic: one that the source raises, with its message, or the one that the sampler of
  the Beta distribution raises, whose message is the library's.
\<close>

datatype error = Panic string | SamplerPanic

datatype log_entry =
    Warn string
  | Info string
  | InfoMetric MetricInfo
  | InfoVersion VersionInfo

section \<open>Library functions the source calls\<close>

text \<open>
  \<^verbatim>\<open>req.URL.Query()\<close> gathers the values of each key in the order they occur. A key
  is in the resulting map only when a pair with that key was read, so a key that is
  present has at least one value.
\<close>

definition Query :: "Request \<Rightarrow> string \<rightharpoonup> string list" where
  "Query req key =
     (case map snd (filter (\<lambda>kv. fst kv = key) (RawQuery req)) of
        [] \<Rightarrow> None
      | v # vs \<Rightarrow> Some (v # vs))"

text \<open>
  \<^verbatim>\<open>req.Header.Get(key)\<close> looks the canonical form of the key up and returns the first
  value, or the empty string when there is none. The canonicalisation of header names
  is a parameter \<open>canon\<close>.
\<close>

definition Get :: "(string \<Rightarrow> string) \<Rightarrow> (string \<rightharpoonup> string list) \<Rightarrow> string \<Rightarrow> string" where
  "Get canon h key =
     (case h (canon key) of
        None \<Rightarrow> []
      | Some [] \<Rightarrow> []
      | Some (v # vs) \<Rightarrow> v)"

text \<open>
  \<^verbatim>\<open>regexp.Match(pattern, b)\<close> is a parameter \<open>rx\<close> of type \<open>regexp\<close>: \<open>Inl e\<close> is
  a pattern that does not compile, \<open>Inr matched\<close> says whether the pattern matches
  somewhere in \<open>b\<close>.
\<close>

datatype regexp_error = CompileError string

type_synonym regexp = "string \<Rightarrow> string \<Rightarrow> regexp_error + bool"

section \<open>GetVersion\<close>

text \<open>
  The inner loop of \<^verbatim>\<open>GetVersion\<close> over the parameters of one version. \<open>found\<close> is
  the flag of the source: a parameter that is absent or has an empty first value clears
  it and the loop goes on; a pattern that does not compile or does not match clears it
  and leaves the loop. \<^verbatim>\<open>val[0]\<close> panics on an empty slice.
\<close>

fun params_loop ::
  "regexp \<Rightarrow> Request \<Rightarrow> Param list \<Rightarrow> bool \<Rightarrow> log_entry list \<Rightarrow> error + (bool \<times> log_entry list)"
where
  "params_loop rx req [] found lg = Inr (found, lg)"
| "params_loop rx req (param # params) found lg =
     (case Query req (Name param) of
        None \<Rightarrow> params_loop rx req params False lg
      | Some val \<Rightarrow>
          (case val of
             [] \<Rightarrow> Inl (Panic ''index out of range [0] with length 0'')
           | v0 # _ \<Rightarrow>
               if length v0 > 0 then
                 (case rx (Value param) v0 of
                    Inl err \<Rightarrow>
                      Inr (False, lg @ [Warn (''found no match for ... '' @ Name param),
                                        Warn (Value param), Warn v0])
                  | Inr matched \<Rightarrow>
                      if \<not> matched then
                        Inr (False, lg @ [Warn (''found no match for ... '' @ Name param),
                                          Warn (Value param), Warn v0])
                      else
                        params_loop rx req params found
                          (lg @ [Info (''found match for ... '' @ Name param),
                                 Info (Value param), Info v0]))
               else params_loop rx req params False lg))"

text \<open>The outer loop: the first version whose parameters leave \<open>found\<close> set is returned.\<close>

fun versions_loop ::
  "regexp \<Rightarrow> Request \<Rightarrow> VersionInfo list \<Rightarrow> log_entry list \<Rightarrow>
     error + (VersionInfo option \<times> log_entry list)"
where
  "versions_loop rx req [] lg = Inr (None, lg)"
| "versions_loop rx req (version # versions) lg =
     (case params_loop rx req (Params version) True lg of
        Inl e \<Rightarrow> Inl e
      | Inr (found, lg') \<Rightarrow>
          if found then Inr (Some version, lg')
          else versions_loop rx req versions lg')"

definition GetVersion ::
  "regexp \<Rightarrow> URIConf \<Rightarrow> Request \<Rightarrow> log_entry list \<Rightarrow>
     error + (VersionInfo option \<times> log_entry list)"
where
  "GetVersion rx u req lg = versions_loop rx req (Versions u) lg"

text \<open>
  What the specification calls a satisfied constraint and a matching variant, in its
  own words: the parameter is in the query, its first value is not empty, and the
  pattern matches in it; a variant matches when all its constraints are satisfied.
\<close>

definition spec_constraint_satisfied :: "regexp \<Rightarrow> Request \<Rightarrow> Param \<Rightarrow> bool" where
  "spec_constraint_satisfied rx req p =
     (case Query req (Name p) of
        None \<Rightarrow> False
      | Some vals \<Rightarrow>
          (case vals of
             [] \<Rightarrow> False
           | v0 # _ \<Rightarrow> v0 \<noteq> [] \<and> rx (Value p) v0 = Inr True))"

definition spec_variant_matches :: "regexp \<Rightarrow> Request \<Rightarrow> VersionInfo \<Rightarrow> bool" where
  "spec_variant_matches rx req version =
     list_all (spec_constraint_satisfied rx req) (Params version)"

section \<open>MatchHeaders\<close>

text \<open>
  The loop of \<^verbatim>\<open>MatchHeaders\<close> over the entries of the header map: the first
  entry whose value differs from what the request carries returns false.
\<close>

fun headers_loop :: "(string \<Rightarrow> string) \<Rightarrow> Request \<Rightarrow> (string \<times> string) list \<Rightarrow> bool" where
  "headers_loop canon req [] = True"
| "headers_loop canon req ((key, val) # rest) =
     (if Get canon (Header req) key \<noteq> val then False
      else headers_loop canon req rest)"

definition MatchHeaders :: "(string \<Rightarrow> string) \<Rightarrow> URIConf \<Rightarrow> Request \<Rightarrow> bool" where
  "MatchHeaders canon u req = headers_loop canon req (Headers u)"

section \<open>getValue\<close>

text \<open>
  \<^verbatim>\<open>getValue\<close> reads the clock, writes a log line and draws from the random source.
  The duration \<^verbatim>\<open>time.Now().Sub(start)\<close> is the argument \<open>elapsed\<close>, in
  nanoseconds; the log and the state of the random source are the fields of \<open>World\<close>.
  \<^verbatim>\<open>Duration.Seconds\<close> adds the whole seconds and the remaining nanoseconds, both
  taken by Go's truncating division.
\<close>

record 'g World =
  Log :: "log_entry list"
  Rng :: 'g

definition Seconds :: "int \<Rightarrow> real" where
  "Seconds d =
     real_of_int (d sdiv 1000000000) + real_of_int (d smod 1000000000) / 1000000000"

text \<open>
  The value \<^verbatim>\<open>getValue\<close> returns is a \<^verbatim>\<open>float64\<close> that is a number or, when
  the sample is, not a number. Arithmetic with NaN gives NaN.
\<close>

datatype float64 = Num real | NaN

fun float64_add :: "float64 \<Rightarrow> float64 \<Rightarrow> float64" where
  "float64_add (Num x) (Num y) = Num (x + y)"
| "float64_add _ _ = NaN"

fun float64_mul :: "float64 \<Rightarrow> float64 \<Rightarrow> float64" where
  "float64_mul (Num x) (Num y) = Num (x * y)"
| "float64_mul _ _ = NaN"


text \<open>
  The struct \<^verbatim>\<open>distuv.Beta\<close> and its method \<^verbatim>\<open>Rand\<close>, a function of the
  library. \<^verbatim>\<open>Rand\<close> panics when a shape parameter is not positive. Otherwise it
  returns a sample, which the library computes as a quotient of two draws and which is
  NaN when both draws are zero. What it draws is the parameter \<open>draw\<close>: it is given the
  distribution and the state of the random source and yields the sample and the next
  state. Nothing is assumed of the sample.
\<close>

record distuv_Beta =
  Beta_Alpha :: real
  Beta_Beta :: real

type_synonym 'g source = "distuv_Beta \<Rightarrow> 'g \<Rightarrow> float64 \<times> 'g"

definition Rand_panics :: "distuv_Beta \<Rightarrow> bool" where
  "Rand_panics b \<longleftrightarrow> Beta_Alpha b \<le> 0 \<or> Beta_Beta b \<le> 0"

definition Beta_Rand :: "'g source \<Rightarrow> distuv_Beta \<Rightarrow> 'g \<Rightarrow> error + (float64 \<times> 'g)" where
  "Beta_Rand draw b g = (if Rand_panics b then Inl SamplerPanic else Inr (draw b g))"

text \<open>The distribution that the gauge branch builds.\<close>

definition gauge_Beta :: "int \<Rightarrow> MetricInfo \<Rightarrow> distuv_Beta" where
  "gauge_Beta elapsed metric =
     \<lparr>Beta_Alpha = (Seconds elapsed + 1.0) * Alpha metric,
      Beta_Beta = (Seconds elapsed + 1.0) * Beta metric\<rparr>"

text \<open>
  \<^verbatim>\<open>getValue\<close> itself. A panic of the sampler leaves the function; the log line of
  the gauge branch is written before the sample is drawn.
\<close>

definition getValue ::
  "'g source \<Rightarrow> int \<Rightarrow> VersionInfo \<Rightarrow> 'g World \<Rightarrow> error + (float64 \<times> 'g World)"
where
  "getValue draw elapsed version w =
     (if Type (Metric version) = ''counter'' then
        Inr (Num (Seconds elapsed * Rate (Metric version)), w)
      else if Type (Metric version) = ''gauge'' then
        (let w1 = w\<lparr>Log := Log w @ [InfoMetric (Metric version)]\<rparr>
         in case Beta_Rand draw (gauge_Beta elapsed (Metric version)) (Rng w1) of
              Inl e \<Rightarrow> Inl e
            | Inr (beta, g) \<Rightarrow>
                Inr (float64_add (Num (Shift (Metric version)))
                       (float64_mul beta (Num (Multiplier (Metric version)))),
                     w1\<lparr>Rng := g\<rparr>))
      else Inr (Num 21.7639, w))"

section \<open>getHandlerFunc\<close>

text \<open>
  The response: the status code given to \<^verbatim>\<open>WriteHeader\<close> and the bytes given to
  \<^verbatim>\<open>Write\<close>, which are either a literal text or the JSON encoding of a
  \<^verbatim>\<open>PrometheusResponse\<close>. The encoding itself is not modelled; \<open>Sprint x\<close> is the
  string \<^verbatim>\<open>fmt.Sprint\<close> makes of the float \<open>x\<close>. A handler that panics returns
  \<open>Inl\<close>: it has written no response.
\<close>

datatype interface = Float64 real | Sprint float64

record PrometheusResponseData =
  ResultType :: string
  Result :: "interface list list"

record PrometheusResponse =
  Status :: string
  Data :: PrometheusResponseData

datatype body = Bytes string | Marshal PrometheusResponse

record Response =
  StatusCode :: nat
  Body :: body

type_synonym 'g HandlerFunc = "int \<Rightarrow> Request \<Rightarrow> 'g World \<Rightarrow> error + (Response \<times> 'g World)"

text \<open>
  The closure \<^verbatim>\<open>f\<close> that \<^verbatim>\<open>getHandlerFunc\<close> builds for the provider
  \<^verbatim>\<open>Prometheus\<close>. Its first argument is the duration since the start that
  \<^verbatim>\<open>getValue\<close> reads from the clock. The value is computed while the response
  is built, before the status is written.
\<close>

definition handler_f ::
  "regexp \<Rightarrow> (string \<Rightarrow> string) \<Rightarrow> 'g source \<Rightarrow> URIConf \<Rightarrow> 'g HandlerFunc"
where
  "handler_f rx canon draw conf elapsed req w =
     (if \<not> MatchHeaders canon conf req then
        Inr (\<lparr>StatusCode = 401, Body = Bytes ''headers are not matching''\<rparr>, w)
      else
        (case GetVersion rx conf req (Log w) of
           Inl e \<Rightarrow> Inl e
         | Inr (None, lg) \<Rightarrow>
             Inr (\<lparr>StatusCode = 500,
                   Body = Bytes ''500 - cannot find any matching version in request!''\<rparr>,
                  w\<lparr>Log := lg\<rparr>)
         | Inr (Some version, lg) \<Rightarrow>
             (case getValue draw elapsed version (w\<lparr>Log := lg\<rparr>) of
                Inl e \<Rightarrow> Inl e
              | Inr (x, w') \<Rightarrow>
                  Inr (\<lparr>StatusCode = 200,
                        Body = Marshal
                          \<lparr>Status = ''success'',
                           Data = \<lparr>ResultType = ''vector'',
                                   Result = [[Float64 1556823494.744, Sprint x]]\<rparr>\<rparr>\<rparr>,
                       w'\<lparr>Log := Log w' @ [InfoVersion version]\<rparr>))))"

text \<open>
  What a run of a handler shows outside the log: the panic, or the response and the
  state of the random source.
\<close>

definition observable :: "error + (Response \<times> 'g World) \<Rightarrow> error + (Response \<times> 'g)" where
  "observable r = (case r of Inl e \<Rightarrow> Inl e | Inr (resp, w') \<Rightarrow> Inr (resp, Rng w'))"

definition getHandlerFunc ::
  "regexp \<Rightarrow> (string \<Rightarrow> string) \<Rightarrow> 'g source \<Rightarrow> URIConf \<Rightarrow> error + 'g HandlerFunc"
where
  "getHandlerFunc rx canon draw conf =
     (if Provider conf = ''Prometheus'' then Inr (handler_f rx canon draw conf)
      else Inl (Panic (''unknown provider: '' @ Provider conf)))"

text \<open>
  The last loop of \<^verbatim>\<open>main\<close>, which builds the handler of each endpoint and
  registers it. \<^verbatim>\<open>http.HandleFunc\<close> is a parameter that returns the new state of
  the multiplexer or panics. The loop returns normally only when every handler was built
  and registered; \<^verbatim>\<open>main\<close> then starts serving.
\<close>

fun register_loop ::
  "(string \<Rightarrow> 'g HandlerFunc \<Rightarrow> 'm \<Rightarrow> error + 'm) \<Rightarrow> regexp \<Rightarrow> (string \<Rightarrow> string) \<Rightarrow> 'g source \<Rightarrow>
     URIConf list \<Rightarrow> 'm \<Rightarrow> error + 'm"
where
  "register_loop HandleFunc rx canon draw [] mux = Inr mux"
| "register_loop HandleFunc rx canon draw (conf # confs) mux =
     (case getHandlerFunc rx canon draw conf of
        Inl e \<Rightarrow> Inl e
      | Inr f \<Rightarrow>
          (case HandleFunc (URI conf) f mux of
             Inl e \<Rightarrow> Inl e
           | Inr mux' \<Rightarrow> register_loop HandleFunc rx canon draw confs mux'))"

section \<open>An example configuration\<close>

text \<open>
  A matcher for the examples: it behaves as \<^verbatim>\<open>regexp.Match\<close> does on patterns
  made of letters and digits only, which match where they occur as a substring, and on
  the pattern \<^verbatim>\<open>(\<close>, which does not compile.
\<close>

fun contains :: "string \<Rightarrow> string \<Rightarrow> bool" where
  "contains p [] = (p = [])"
| "contains p (c # s) = (take (length p) (c # s) = p \<or> contains p s)"

definition example_Match :: regexp where
  "example_Match pattern b =
     (if pattern = ''('' then Inl (CompileError ''missing closing )'')
      else Inr (contains pattern b))"

text \<open>
  An endpoint with three versions, the last one without parameters, and one required
  header.
\<close>

definition stable_version :: VersionInfo where
  "stable_version =
     \<lparr>Params = [\<lparr>Name = ''version'', Value = ''stable''\<rparr>],
      Metric = \<lparr>Type = ''counter'', Rate = 1, Shift = 0, Multiplier = 0, Alpha = 0, Beta = 0\<rparr>\<rparr>"

definition canary_version :: VersionInfo where
  "canary_version =
     \<lparr>Params = [\<lparr>Name = ''version'', Value = ''canary''\<rparr>],
      Metric = \<lparr>Type = ''counter'', Rate = 2, Shift = 0, Multiplier = 0, Alpha = 0, Beta = 0\<rparr>\<rparr>"

definition default_version :: VersionInfo where
  "default_version =
     \<lparr>Params = [],
      Metric = \<lparr>Type = ''gauge'', Rate = 0, Shift = 0, Multiplier = 1, Alpha = 1, Beta = 1\<rparr>\<rparr>"

definition example_conf :: URIConf where
  "example_conf =
     \<lparr>Versions = [stable_version, canary_version, default_version],
      Headers = [(''Authorization'', ''Bearer t0ken'')],
      URI = ''/api/v1/query'',
      Provider = ''Prometheus''\<rparr>"

definition canary_req :: Request where
  "canary_req =
     \<lparr>RawQuery = [(''version'', ''canary'')],
      Header = [''Authorization'' \<mapsto> [''Bearer t0ken'']]\<rparr>"

definition plain_req :: Request where
  "plain_req = \<lparr>RawQuery = [], Header = [''Authorization'' \<mapsto> [''Bearer t0ken'']]\<rparr>"

definition blank_req :: Request where
  "blank_req =
     \<lparr>RawQuery = [(''version'', []), (''version'', ''canary'')],
      Header = [''Authorization'' \<mapsto> [''Bearer t0ken'']]\<rparr>"

definition stable_req :: Request where
  "stable_req =
     \<lparr>RawQuery = [(''version'', ''stable'')],
      Header = [''Authorization'' \<mapsto> [''Bearer t0ken'']]\<rparr>"

definition broken_version :: VersionInfo where
  "broken_version =
     \<lparr>Params = [\<lparr>Name = ''version'', Value = ''(''\<rparr>],
      Metric = \<lparr>Type = ''counter'', Rate = 3, Shift = 0, Multiplier = 0, Alpha = 0, Beta = 0\<rparr>\<rparr>"

definition anonymous_req :: Request where
  "anonymous_req = \<lparr>RawQuery = [(''version'', ''canary'')], Header = Map.empty\<rparr>"

text \<open>
  Two random sources for the examples: one yields the mean of the distribution and
  counts the draws, the other yields NaN.
\<close>

definition mean_draw :: "nat source" where
  "mean_draw b g = (Num (Beta_Alpha b / (Beta_Alpha b + Beta_Beta b)), Suc g)"


text \<open>
  A gauge whose \<^verbatim>\<open>alpha\<close> and \<^verbatim>\<open>beta\<close> are zero, the values the fields have
  when the configuration does not set them, a version of an unknown kind, and an
  endpoint whose first version has a pattern that does not compile and whose second
  version is that gauge.
\<close>

definition zero_gauge_version :: VersionInfo where
  "zero_gauge_version =
     \<lparr>Params = [],
      Metric = \<lparr>Type = ''gauge'', Rate = 0, Shift = 0, Multiplier = 1, Alpha = 0, Beta = 0\<rparr>\<rparr>"

definition histogram_version :: VersionInfo where
  "histogram_version =
     \<lparr>Params = [],
      Metric = \<lparr>Type = ''histogram'', Rate = 5, Shift = 1, Multiplier = 2, Alpha = 3, Beta = 4\<rparr>\<rparr>"

definition zero_gauge_conf :: URIConf where
  "zero_gauge_conf = example_conf\<lparr>Versions := [broken_version, zero_gauge_version]\<rparr>"

definition start_World :: "nat World" where
  "start_World = \<lparr>Log = [], Rng = 0\<rparr>"

section \<open>Properties\<close>

lemma Query_not_empty: "Query req key \<noteq> Some []"
  by (simp add: Query_def split: list.splits)

lemma params_loop_found:
  "\<exists>lg'. params_loop rx req ps found lg =
     Inr (found \<and> list_all (spec_constraint_satisfied rx req) ps, lg')"
proof (induction ps arbitrary: found lg)
  case Nil
  show ?case by simp
next
  case (Cons p ps)
  show ?case
  proof (cases "Query req (Name p)")
    case None
    with Cons.IH [of False lg] show ?thesis
      by (simp add: spec_constraint_satisfied_def)
  next
    case (Some val)
    then obtain v0 vs where val: "val = v0 # vs"
      using Query_not_empty [of req "Name p"] by (cases val) auto
    show ?thesis
    proof (cases "v0 = []")
      case True
      with Some val Cons.IH [of False lg] show ?thesis
        by (simp add: spec_constraint_satisfied_def)
    next
      case False
      show ?thesis
      proof (cases "rx (Value p) v0")
        case (Inl err)
        with Some val False show ?thesis
          by (simp add: spec_constraint_satisfied_def)
      next
        case (Inr matched)
        show ?thesis
        proof (cases matched)
          case True
          with Some val False Inr
            Cons.IH [of found "lg @ [Info (''found match for ... '' @ Name p),
                                     Info (Value p), Info v0]"]
          show ?thesis
            by (simp add: spec_constraint_satisfied_def)
        next
          case False
          with Some val \<open>v0 \<noteq> []\<close> Inr show ?thesis
            by (simp add: spec_constraint_satisfied_def)
        qed
      qed
    qed
  qed
qed

lemma versions_loop_find:
  "\<exists>lg'. versions_loop rx req vs lg = Inr (find (spec_variant_matches rx req) vs, lg')"
proof (induction vs arbitrary: lg)
  case Nil
  show ?case by simp
next
  case (Cons v vs)
  obtain lg1 where p: "params_loop rx req (Params v) True lg =
      Inr (spec_variant_matches rx req v, lg1)"
    using params_loop_found [of rx req "Params v" True lg]
    by (auto simp: spec_variant_matches_def)
  show ?case
  proof (cases "spec_variant_matches rx req v")
    case True
    with p show ?thesis by simp
  next
    case False
    with p Cons.IH [of lg1] show ?thesis by simp
  qed
qed

lemma versions_loop_stops:
  assumes "spec_variant_matches rx req v"
  shows "versions_loop rx req (pre @ v # rest) lg = versions_loop rx req (pre @ [v]) lg"
proof (induction pre arbitrary: lg)
  case Nil
  obtain lg1 where "params_loop rx req (Params v) True lg = Inr (True, lg1)"
    using params_loop_found [of rx req "Params v" True lg] assms
    by (auto simp: spec_variant_matches_def)
  then show ?case by simp
next
  case (Cons w pre)
  show ?case
    by (simp add: Cons.IH split: sum.splits prod.splits)
qed

lemma GetVersion_find:
  "\<exists>lg'. GetVersion rx u req lg = Inr (find (spec_variant_matches rx req) (Versions u), lg')"
  by (simp add: GetVersion_def versions_loop_find)

lemma find_skip_unmatched:
  "\<not> P v \<Longrightarrow> find P (pre @ v # rest) = find P (pre @ rest)"
  by (induction pre) auto

lemma find_first:
  "P v \<Longrightarrow> \<forall>w\<in>set pre. \<not> P w \<Longrightarrow> find P (pre @ v # rest) = Some v"
  by (induction pre) auto

lemma spec_constraint_satisfied_iff:
  "spec_constraint_satisfied rx req p \<longleftrightarrow>
     (\<exists>v0 vs. Query req (Name p) = Some (v0 # vs) \<and> v0 \<noteq> [] \<and> rx (Value p) v0 = Inr True)"
  by (auto simp: spec_constraint_satisfied_def split: option.splits list.splits)


lemma headers_loop_iff:
  "headers_loop canon req hs \<longleftrightarrow> (\<forall>(k, v)\<in>set hs. Get canon (Header req) k = v)"
  by (induction canon req hs rule: headers_loop.induct) auto

lemma MatchHeaders_iff:
  "MatchHeaders canon u req \<longleftrightarrow> (\<forall>(k, v)\<in>set (Headers u). Get canon (Header req) k = v)"
  by (simp add: MatchHeaders_def headers_loop_iff)

lemma MatchHeaders_entry:
  "MatchHeaders canon u req \<Longrightarrow> (k, v) \<in> set (Headers u) \<Longrightarrow> Get canon (Header req) k = v"
  by (auto simp: MatchHeaders_iff)

lemma Get_update_same: "Get canon (h(canon k \<mapsto> [x])) k = x"
  by (simp add: Get_def)

lemma Get_absent: "h (canon k) = None \<Longrightarrow> Get canon h k = []"
  by (simp add: Get_def)

lemma Get_absent_as_empty:
  "h (canon k) = None \<Longrightarrow> Get canon (h(canon k \<mapsto> [[]])) k' = Get canon h k'"
  by (simp add: Get_def)

lemma Seconds_eq: "Seconds d = real_of_int d / 1000000000"
proof -
  have "d sdiv 1000000000 * 1000000000 + d smod 1000000000 = d"
    by (rule sdiv_mult_smod_eq)
  then have "real_of_int (d sdiv 1000000000 * 1000000000 + d smod 1000000000) = real_of_int d"
    by simp
  then show ?thesis
    by (simp add: Seconds_def field_simps)
qed

lemma Seconds_nonneg: "0 \<le> d \<Longrightarrow> 0 \<le> Seconds d"
  by (simp add: Seconds_eq)



lemma Rand_panics_gauge_Beta:
  assumes "0 \<le> elapsed"
  shows "Rand_panics (gauge_Beta elapsed metric) \<longleftrightarrow> Alpha metric \<le> 0 \<or> Beta metric \<le> 0"
proof -
  have s: "0 < Seconds elapsed + 1"
    using Seconds_nonneg [OF assms] by simp
  have a: "(Seconds elapsed + 1) * Alpha metric \<le> 0 \<longleftrightarrow> Alpha metric \<le> 0"
    using s by (simp add: mult_le_0_iff)
  have b: "(Seconds elapsed + 1) * Beta metric \<le> 0 \<longleftrightarrow> Beta metric \<le> 0"
    using s by (simp add: mult_le_0_iff)
  show ?thesis
    using a b by (simp add: Rand_panics_def gauge_Beta_def)
qed

lemma getValue_panic:
  "Type (Metric version) = ''gauge'' \<Longrightarrow> Rand_panics (gauge_Beta elapsed (Metric version)) \<Longrightarrow>
     getValue draw elapsed version w = Inl SamplerPanic"
  by (simp add: getValue_def Beta_Rand_def)

lemma getValue_returns:
  "\<not> (Type (Metric version) = ''gauge'' \<and> Rand_panics (gauge_Beta elapsed (Metric version))) \<Longrightarrow>
     \<exists>x w'. getValue draw elapsed version w = Inr (x, w')"
  by (auto simp: getValue_def Beta_Rand_def Let_def split: prod.splits)

lemma getValue_Log:
  "(case getValue draw elapsed version (w\<lparr>Log := l\<rparr>) of
      Inl e \<Rightarrow> Inl e | Inr (x, w') \<Rightarrow> Inr (x, Rng w'))
   = (case getValue draw elapsed version w of
      Inl e \<Rightarrow> Inl e | Inr (x, w') \<Rightarrow> Inr (x, Rng w'))"
  by (simp add: getValue_def Beta_Rand_def Let_def split: prod.splits)

lemma handler_f_cases:
  "handler_f rx canon draw conf elapsed req w =
     (if \<not> MatchHeaders canon conf req then
        Inr (\<lparr>StatusCode = 401, Body = Bytes ''headers are not matching''\<rparr>, w)
      else
        (case find (spec_variant_matches rx req) (Versions conf) of
           None \<Rightarrow>
             Inr (\<lparr>StatusCode = 500,
                   Body = Bytes ''500 - cannot find any matching version in request!''\<rparr>,
                  w\<lparr>Log := snd (projr (GetVersion rx conf req (Log w)))\<rparr>)
         | Some version \<Rightarrow>
             (case getValue draw elapsed version
                     (w\<lparr>Log := snd (projr (GetVersion rx conf req (Log w)))\<rparr>) of
                Inl e \<Rightarrow> Inl e
              | Inr (x, w') \<Rightarrow>
                  Inr (\<lparr>StatusCode = 200,
                        Body = Marshal
                          \<lparr>Status = ''success'',
                           Data = \<lparr>ResultType = ''vector'',
                                   Result = [[Float64 1556823494.744, Sprint x]]\<rparr>\<rparr>\<rparr>,
                       w'\<lparr>Log := Log w' @ [InfoVersion version]\<rparr>))))"
proof -
  obtain lg' where g: "GetVersion rx conf req (Log w) =
      Inr (find (spec_variant_matches rx req) (Versions conf), lg')"
    using GetVersion_find [of rx conf req "Log w"] by blast
  show ?thesis
    by (simp add: handler_f_def g split: option.splits)
qed

lemma observable_handler_f:
  "observable (handler_f rx canon draw conf elapsed req w) =
     (if \<not> MatchHeaders canon conf req then
        Inr (\<lparr>StatusCode = 401, Body = Bytes ''headers are not matching''\<rparr>, Rng w)
      else
        (case find (spec_variant_matches rx req) (Versions conf) of
           None \<Rightarrow>
             Inr (\<lparr>StatusCode = 500,
                   Body = Bytes ''500 - cannot find any matching version in request!''\<rparr>,
                  Rng w)
         | Some version \<Rightarrow>
             (case getValue draw elapsed version w of
                Inl e \<Rightarrow> Inl e
              | Inr (x, w') \<Rightarrow>
                  Inr (\<lparr>StatusCode = 200,
                        Body = Marshal
                          \<lparr>Status = ''success'',
                           Data = \<lparr>ResultType = ''vector'',
                                   Result = [[Float64 1556823494.744, Sprint x]]\<rparr>\<rparr>\<rparr>,
                       Rng w'))))"
proof (cases "MatchHeaders canon conf req")
  case False
  then show ?thesis by (simp add: handler_f_cases observable_def)
next
  case True
  show ?thesis
  proof (cases "find (spec_variant_matches rx req) (Versions conf)")
    case None
    with True show ?thesis by (simp add: handler_f_cases observable_def)
  next
    case (Some version)
    let ?l = "snd (projr (GetVersion rx conf req (Log w)))"
    have "observable (handler_f rx canon draw conf elapsed req w) =
        (case (case getValue draw elapsed version (w\<lparr>Log := ?l\<rparr>) of
                 Inl e \<Rightarrow> Inl e | Inr (x, w') \<Rightarrow> Inr (x, Rng w')) of
           Inl e \<Rightarrow> Inl e
         | Inr (x, g) \<Rightarrow>
             Inr (\<lparr>StatusCode = 200,
                   Body = Marshal
                     \<lparr>Status = ''success'',
                      Data = \<lparr>ResultType = ''vector'',
                              Result = [[Float64 1556823494.744, Sprint x]]\<rparr>\<rparr>\<rparr>,
                  g))"
      using True Some
      by (simp add: handler_f_cases observable_def split: sum.splits prod.splits)
    also have "\<dots> =
        (case (case getValue draw elapsed version w of
                 Inl e \<Rightarrow> Inl e | Inr (x, w') \<Rightarrow> Inr (x, Rng w')) of
           Inl e \<Rightarrow> Inl e
         | Inr (x, g) \<Rightarrow>
             Inr (\<lparr>StatusCode = 200,
                   Body = Marshal
                     \<lparr>Status = ''success'',
                      Data = \<lparr>ResultType = ''vector'',
                              Result = [[Float64 1556823494.744, Sprint x]]\<rparr>\<rparr>\<rparr>,
                  g))"
      by (simp only: getValue_Log)
    finally show ?thesis
      using True Some by (simp split: sum.splits prod.splits)
  qed
qed

lemma register_loop_panics:
  "\<exists>conf\<in>set confs. Provider conf \<noteq> ''Prometheus'' \<Longrightarrow>
     \<exists>e. register_loop HandleFunc rx canon draw confs mux = Inl e"
proof (induction confs arbitrary: mux)
  case Nil
  then show ?case by simp
next
  case (Cons conf confs)
  show ?case
  proof (cases "Provider conf = ''Prometheus''")
    case False
    then show ?thesis by (simp add: getHandlerFunc_def)
  next
    case True
    with Cons.prems have "\<exists>conf\<in>set confs. Provider conf \<noteq> ''Prometheus''"
      by simp
    from Cons.IH [OF this] True show ?thesis
      by (simp add: getHandlerFunc_def split: sum.splits)
  qed
qed


lemma GetVersion_canary:
  "GetVersion example_Match example_conf canary_req [] =
     Inr (Some canary_version,
          [Warn ''found no match for ... version'', Warn ''stable'', Warn ''canary'',
           Info ''found match for ... version'', Info ''canary'', Info ''canary''])"
  by (simp add: GetVersion_def example_conf_def stable_version_def canary_version_def
      canary_req_def Query_def example_Match_def)

lemma MatchHeaders_canary: "MatchHeaders id example_conf canary_req"
  by (simp add: MatchHeaders_def example_conf_def canary_req_def Get_def)

lemma not_matches_stable: "\<not> spec_variant_matches example_Match canary_req stable_version"
  by (simp add: spec_variant_matches_def spec_constraint_satisfied_def stable_version_def
      canary_req_def Query_def example_Match_def)

lemma matches_canary: "spec_variant_matches example_Match canary_req canary_version"
  by (simp add: spec_variant_matches_def spec_constraint_satisfied_def canary_version_def
      canary_req_def Query_def example_Match_def)


lemma MatchHeaders_zero_gauge: "MatchHeaders id zero_gauge_conf canary_req"
  using MatchHeaders_canary by (simp add: MatchHeaders_def zero_gauge_conf_def)

lemma find_zero_gauge:
  "find (spec_variant_matches example_Match canary_req) (Versions zero_gauge_conf)
     = Some zero_gauge_version"
  by (simp add: zero_gauge_conf_def spec_variant_matches_def spec_constraint_satisfied_def
      broken_version_def zero_gauge_version_def canary_req_def Query_def example_Match_def)

lemma Rand_panics_zero_gauge:
  "Rand_panics (gauge_Beta elapsed (Metric zero_gauge_version))"
  by (simp add: Rand_panics_def gauge_Beta_def zero_gauge_version_def)

text \<open>
  Claim C1. When a version has all its constraints satisfied by the request and no
  version declared before it has, \<^verbatim>\<open>GetVersion\<close> returns that version, whatever
  versions are declared after it, matching or not; and what \<^verbatim>\<open>GetVersion\<close> returns
  and logs is what it returns and logs for the list cut after that version, so the
  later versions are not looked at.
\<close>

theorem GetVersion_first_match_wins:
  assumes "spec_variant_matches rx req v"
    and "\<forall>w\<in>set pre. \<not> spec_variant_matches rx req w"
  shows "(\<exists>lg'. GetVersion rx (u\<lparr>Versions := pre @ v # rest\<rparr>) req lg = Inr (Some v, lg'))
       \<and> GetVersion rx (u\<lparr>Versions := pre @ v # rest\<rparr>) req lg
           = GetVersion rx (u\<lparr>Versions := pre @ [v]\<rparr>) req lg"
proof
  from GetVersion_find [of rx "u\<lparr>Versions := pre @ v # rest\<rparr>" req lg]
  show "\<exists>lg'. GetVersion rx (u\<lparr>Versions := pre @ v # rest\<rparr>) req lg = Inr (Some v, lg')"
    using assms by (simp add: find_first)
next
  show "GetVersion rx (u\<lparr>Versions := pre @ v # rest\<rparr>) req lg
           = GetVersion rx (u\<lparr>Versions := pre @ [v]\<rparr>) req lg"
    using versions_loop_stops [OF assms(1)] by (simp add: GetVersion_def)
qed

theorem GetVersion_first_match_wins_witness:
  "spec_variant_matches example_Match canary_req canary_version
   \<and> \<not> spec_variant_matches example_Match canary_req stable_version
   \<and> spec_variant_matches example_Match canary_req default_version
   \<and> (\<exists>lg'. GetVersion example_Match example_conf canary_req [] = Inr (Some canary_version, lg'))
   \<and> GetVersion example_Match example_conf canary_req []
       = GetVersion example_Match (example_conf\<lparr>Versions := [stable_version, canary_version]\<rparr>)
           canary_req []"
proof -
  have m: "spec_variant_matches example_Match canary_req canary_version"
    by (simp add: spec_variant_matches_def spec_constraint_satisfied_def canary_version_def
        canary_req_def Query_def example_Match_def)
  have n: "\<forall>w\<in>set [stable_version]. \<not> spec_variant_matches example_Match canary_req w"
    by (simp add: spec_variant_matches_def spec_constraint_satisfied_def stable_version_def
        canary_req_def Query_def example_Match_def)
  have c: "spec_variant_matches example_Match canary_req default_version"
    by (simp add: spec_variant_matches_def default_version_def)
  have e: "example_conf\<lparr>Versions := [stable_version] @ canary_version # [default_version]\<rparr>
      = example_conf"
    by (simp add: example_conf_def)
  note r = GetVersion_first_match_wins [OF m n, where u = example_conf
      and rest = "[default_version]" and lg = "[]", unfolded e, simplified]
  from r have r1: "\<exists>lg'. GetVersion example_Match example_conf canary_req [] =
      Inr (Some canary_version, lg')" ..
  from r have r2: "GetVersion example_Match example_conf canary_req []
       = GetVersion example_Match (example_conf\<lparr>Versions := [stable_version, canary_version]\<rparr>)
           canary_req []" ..
  from n have n': "\<not> spec_variant_matches example_Match canary_req stable_version"
    by simp
  show ?thesis
    by (intro conjI m n' c r1 r2)
qed

text \<open>
  Claim C2. The inner loop of \<^verbatim>\<open>GetVersion\<close> leaves \<open>found\<close> set exactly when every
  constraint of the version is satisfied, so \<^verbatim>\<open>GetVersion\<close> on that one version
  returns it exactly then, and always when the version has no constraints. On one
  constraint the loop leaves \<open>found\<close> set exactly when the named parameter is in the
  query, its first value is not empty and the matcher reports a match in it; a
  constraint is not satisfied when the parameter is absent, when its first value is
  empty, and when the matcher does not report a match.
\<close>

theorem variant_matches_iff_constraints_satisfied:
  "(\<exists>lg'. params_loop rx req (Params version) True lg =
            Inr (\<forall>p\<in>set (Params version). spec_constraint_satisfied rx req p, lg'))
   \<and> (\<exists>lg'. GetVersion rx (u\<lparr>Versions := [version]\<rparr>) req lg =
            Inr (if \<forall>p\<in>set (Params version). spec_constraint_satisfied rx req p
                 then Some version else None, lg'))
   \<and> (Params version = [] \<longrightarrow>
        (\<exists>lg'. GetVersion rx (u\<lparr>Versions := [version]\<rparr>) req lg = Inr (Some version, lg')))
   \<and> (\<exists>lg'. params_loop rx req [p] True lg = Inr (spec_constraint_satisfied rx req p, lg'))
   \<and> (spec_constraint_satisfied rx req p \<longleftrightarrow>
        (\<exists>v0 vs. Query req (Name p) = Some (v0 # vs) \<and> v0 \<noteq> [] \<and>
           rx (Value p) v0 = Inr True))
   \<and> (Query req (Name p) = None \<longrightarrow> \<not> spec_constraint_satisfied rx req p)
   \<and> (\<forall>vs. Query req (Name p) = Some ([] # vs) \<longrightarrow> \<not> spec_constraint_satisfied rx req p)
   \<and> (\<forall>v0 vs. Query req (Name p) = Some (v0 # vs) \<and> rx (Value p) v0 \<noteq> Inr True \<longrightarrow>
         \<not> spec_constraint_satisfied rx req p)"
proof -
  have a: "\<exists>lg'. params_loop rx req (Params version) True lg =
            Inr (\<forall>p\<in>set (Params version). spec_constraint_satisfied rx req p, lg')"
    using params_loop_found [of rx req "Params version" True lg]
    by (simp add: list_all_iff)
  have b: "\<exists>lg'. GetVersion rx (u\<lparr>Versions := [version]\<rparr>) req lg =
            Inr (if \<forall>p\<in>set (Params version). spec_constraint_satisfied rx req p
                 then Some version else None, lg')"
  proof -
    obtain lg1 where "GetVersion rx (u\<lparr>Versions := [version]\<rparr>) req lg =
        Inr (find (spec_variant_matches rx req) [version], lg1)"
      using GetVersion_find [of rx "u\<lparr>Versions := [version]\<rparr>" req lg] by auto
    then show ?thesis
      by (simp add: spec_variant_matches_def list_all_iff)
  qed
  have c: "Params version = [] \<longrightarrow>
        (\<exists>lg'. GetVersion rx (u\<lparr>Versions := [version]\<rparr>) req lg = Inr (Some version, lg'))"
    by (simp add: GetVersion_def)
  have d: "\<exists>lg'. params_loop rx req [p] True lg = Inr (spec_constraint_satisfied rx req p, lg')"
    using params_loop_found [of rx req "[p]" True lg] by simp
  have e: "spec_constraint_satisfied rx req p \<longleftrightarrow>
        (\<exists>v0 vs. Query req (Name p) = Some (v0 # vs) \<and> v0 \<noteq> [] \<and>
           rx (Value p) v0 = Inr True)"
    by (rule spec_constraint_satisfied_iff)
  have f: "Query req (Name p) = None \<longrightarrow> \<not> spec_constraint_satisfied rx req p"
    by (simp add: spec_constraint_satisfied_def)
  have g: "\<forall>vs. Query req (Name p) = Some ([] # vs) \<longrightarrow> \<not> spec_constraint_satisfied rx req p"
    by (simp add: spec_constraint_satisfied_def)
  have h: "\<forall>v0 vs. Query req (Name p) = Some (v0 # vs) \<and> rx (Value p) v0 \<noteq> Inr True \<longrightarrow>
         \<not> spec_constraint_satisfied rx req p"
    by (auto simp: spec_constraint_satisfied_def)
  show ?thesis
    by (intro conjI a b c d e f g h)
qed

theorem variant_matches_iff_constraints_satisfied_witness:
  "(\<exists>lg'. GetVersion example_Match (example_conf\<lparr>Versions := [canary_version]\<rparr>) canary_req []
            = Inr (Some canary_version, lg'))
   \<and> Params default_version = []
   \<and> (\<exists>lg'. GetVersion example_Match (example_conf\<lparr>Versions := [default_version]\<rparr>) stable_req []
            = Inr (Some default_version, lg'))
   \<and> spec_constraint_satisfied example_Match canary_req \<lparr>Name = ''version'', Value = ''can''\<rparr>
   \<and> Query plain_req ''version'' = None
   \<and> \<not> spec_constraint_satisfied example_Match plain_req \<lparr>Name = ''version'', Value = ''can''\<rparr>
   \<and> Query blank_req ''version'' = Some [[], ''canary'']
   \<and> \<not> spec_constraint_satisfied example_Match blank_req \<lparr>Name = ''version'', Value = ''can''\<rparr>
   \<and> Query stable_req ''version'' = Some [''stable'']
   \<and> example_Match ''can'' ''stable'' \<noteq> Inr True
   \<and> \<not> spec_constraint_satisfied example_Match stable_req \<lparr>Name = ''version'', Value = ''can''\<rparr>"
proof -
  let ?p = "\<lparr>Name = ''version'', Value = ''can''\<rparr>"
  have q1: "Query canary_req ''version'' = Some [''canary'']"
    by (simp add: Query_def canary_req_def)
  have q2: "Query plain_req ''version'' = None"
    by (simp add: Query_def plain_req_def)
  have q3: "Query blank_req ''version'' = Some [[], ''canary'']"
    by (simp add: Query_def blank_req_def)
  have q4: "Query stable_req ''version'' = Some [''stable'']"
    by (simp add: Query_def stable_req_def)
  have m1: "example_Match ''canary'' ''canary'' = Inr True"
    by (simp add: example_Match_def)
  have m2: "example_Match ''can'' ''canary'' = Inr True"
    by (simp add: example_Match_def)
  have m3: "example_Match ''can'' ''stable'' \<noteq> Inr True"
    by (simp add: example_Match_def)
  have d: "Params default_version = []"
    by (simp add: default_version_def)
  have s1: "\<forall>p\<in>set (Params canary_version). spec_constraint_satisfied example_Match canary_req p"
    by (simp add: canary_version_def spec_constraint_satisfied_def q1 m1)
  note t1 = variant_matches_iff_constraints_satisfied
      [of example_Match canary_req canary_version "[]" example_conf ?p]
  note t2 = variant_matches_iff_constraints_satisfied
      [of example_Match stable_req default_version "[]" example_conf ?p]
  note t3 = variant_matches_iff_constraints_satisfied
      [of example_Match plain_req default_version "[]" example_conf ?p]
  note t4 = variant_matches_iff_constraints_satisfied
      [of example_Match blank_req default_version "[]" example_conf ?p]
  have a: "\<exists>lg'. GetVersion example_Match (example_conf\<lparr>Versions := [canary_version]\<rparr>) canary_req []
            = Inr (Some canary_version, lg')"
    using t1 s1 by simp
  have b: "\<exists>lg'. GetVersion example_Match (example_conf\<lparr>Versions := [default_version]\<rparr>) stable_req []
            = Inr (Some default_version, lg')"
    using t2 d by simp
  have c: "spec_constraint_satisfied example_Match canary_req ?p"
    using t1 q1 m2 by simp
  have e: "\<not> spec_constraint_satisfied example_Match plain_req ?p"
    using t3 q2 by simp
  have f: "\<not> spec_constraint_satisfied example_Match blank_req ?p"
    using t4 q3 by simp
  have g: "\<not> spec_constraint_satisfied example_Match stable_req ?p"
    using t2 q4 m3 by simp
  show ?thesis
    by (intro conjI a d b c q2 e q3 f q4 m3 g)
qed

text \<open>
  Claim C3. \<^verbatim>\<open>MatchHeaders\<close> returns true exactly when, for every entry of the header
  map, the value the request carries for that header name equals the configured value as
  a string. An empty header map authorizes every request; when the request's value of a
  required header is replaced by a string that differs from the configured one, the
  result is false; and the result does not depend on the order in which the entries of
  the map are visited.
\<close>

theorem MatchHeaders_iff_all_headers_equal:
  "(MatchHeaders canon u req \<longleftrightarrow> (\<forall>(k, v)\<in>set (Headers u). Get canon (Header req) k = v))
   \<and> (Headers u = [] \<longrightarrow> MatchHeaders canon u req)
   \<and> ((k, v) \<in> set (Headers u) \<and> x \<noteq> v \<longrightarrow>
         \<not> MatchHeaders canon u (req\<lparr>Header := (Header req)(canon k \<mapsto> [x])\<rparr>))
   \<and> (set (Headers u') = set (Headers u) \<longrightarrow>
         MatchHeaders canon u' req = MatchHeaders canon u req)"
proof -
  have a: "MatchHeaders canon u req \<longleftrightarrow>
      (\<forall>(k, v)\<in>set (Headers u). Get canon (Header req) k = v)"
    by (rule MatchHeaders_iff)
  have b: "Headers u = [] \<longrightarrow> MatchHeaders canon u req"
    by (simp add: MatchHeaders_def)
  have c: "(k, v) \<in> set (Headers u) \<and> x \<noteq> v \<longrightarrow>
         \<not> MatchHeaders canon u (req\<lparr>Header := (Header req)(canon k \<mapsto> [x])\<rparr>)"
  proof
    assume h: "(k, v) \<in> set (Headers u) \<and> x \<noteq> v"
    show "\<not> MatchHeaders canon u (req\<lparr>Header := (Header req)(canon k \<mapsto> [x])\<rparr>)"
    proof
      assume "MatchHeaders canon u (req\<lparr>Header := (Header req)(canon k \<mapsto> [x])\<rparr>)"
      with h have "Get canon ((Header req)(canon k \<mapsto> [x])) k = v"
        by (auto simp: MatchHeaders_iff)
      with h show False by (simp add: Get_update_same)
    qed
  qed
  have d: "set (Headers u') = set (Headers u) \<longrightarrow>
         MatchHeaders canon u' req = MatchHeaders canon u req"
    by (simp add: MatchHeaders_iff)
  show ?thesis
    by (intro conjI a b c d)
qed

theorem MatchHeaders_iff_all_headers_equal_witness:
  "MatchHeaders id example_conf canary_req
   \<and> Headers (example_conf\<lparr>Headers := []\<rparr>) = []
   \<and> MatchHeaders id (example_conf\<lparr>Headers := []\<rparr>) anonymous_req
   \<and> (''Authorization'', ''Bearer t0ken'') \<in> set (Headers example_conf)
   \<and> ''bearer t0ken'' \<noteq> ''Bearer t0ken''
   \<and> \<not> MatchHeaders id example_conf
         (canary_req\<lparr>Header := (Header canary_req)(id ''Authorization'' \<mapsto> [''bearer t0ken''])\<rparr>)"
proof -
  note t1 = MatchHeaders_iff_all_headers_equal [of id example_conf canary_req
      "''Authorization''" "''Bearer t0ken''" "''bearer t0ken''" example_conf]
  note t2 = MatchHeaders_iff_all_headers_equal [of id "example_conf\<lparr>Headers := []\<rparr>" anonymous_req
      "''Authorization''" "''Bearer t0ken''" "''bearer t0ken''" example_conf]
  have g: "Get id (Header canary_req) ''Authorization'' = ''Bearer t0ken''"
    by (simp add: Get_def canary_req_def)
  have a: "MatchHeaders id example_conf canary_req"
    using t1 g by (simp add: example_conf_def)
  have b: "Headers (example_conf\<lparr>Headers := []\<rparr>) = []"
    by simp
  have c: "MatchHeaders id (example_conf\<lparr>Headers := []\<rparr>) anonymous_req"
    using t2 b by blast
  have d: "(''Authorization'', ''Bearer t0ken'') \<in> set (Headers example_conf)"
    by (simp add: example_conf_def)
  have e: "''bearer t0ken'' \<noteq> ''Bearer t0ken''"
    by simp
  have f: "\<not> MatchHeaders id example_conf
         (canary_req\<lparr>Header := (Header canary_req)(id ''Authorization'' \<mapsto> [''bearer t0ken''])\<rparr>)"
    using t1 d e by blast
  show ?thesis
    by (intro conjI a b c d e f)
qed

text \<open>
  Claim C4, as amended. The handler ends in exactly one of four ways. When the headers do
  not match, the status is 401 (the authorization failure), the log and the random source
  are untouched, and the answer is the same whatever versions are configured, so the
  versions are not consulted. When the headers match and no version matches, the status
  is 500 (no matching version). When the headers match and a version matches, the handler
  computes the value of the version \<^verbatim>\<open>GetVersion\<close> returns: if that version is a gauge
  with a shape parameter that is not positive, the sampler panics and the handler panics
  with it, having written no response; otherwise the status is 200 and the body carries
  the value. For a duration that is not negative, a shape parameter is not positive
  exactly when \<^verbatim>\<open>alpha\<close> or \<^verbatim>\<open>beta\<close> is not. The status of the response, or the
  panic, tells which of the four cases holds.
\<close>

theorem handler_outcomes:
  "(\<not> MatchHeaders canon conf req \<longrightarrow>
      handler_f rx canon draw conf elapsed req w
        = Inr (\<lparr>StatusCode = 401, Body = Bytes ''headers are not matching''\<rparr>, w)
      \<and> (\<forall>vs. handler_f rx canon draw (conf\<lparr>Versions := vs\<rparr>) elapsed req w
                = handler_f rx canon draw conf elapsed req w))
   \<and> (MatchHeaders canon conf req
       \<and> (\<forall>v\<in>set (Versions conf). \<not> spec_variant_matches rx req v) \<longrightarrow>
      (\<exists>lg'. GetVersion rx conf req (Log w) = Inr (None, lg')
         \<and> handler_f rx canon draw conf elapsed req w
             = Inr (\<lparr>StatusCode = 500,
                     Body = Bytes ''500 - cannot find any matching version in request!''\<rparr>,
                    w\<lparr>Log := lg'\<rparr>)))
   \<and> (MatchHeaders canon conf req
       \<and> (\<exists>v\<in>set (Versions conf). spec_variant_matches rx req v) \<longrightarrow>
      (\<exists>version lg'.
           GetVersion rx conf req (Log w) = Inr (Some version, lg')
         \<and> (if Type (Metric version) = ''gauge''
                \<and> Rand_panics (gauge_Beta elapsed (Metric version))
             then handler_f rx canon draw conf elapsed req w = Inl SamplerPanic
             else (\<exists>x w'.
                     getValue draw elapsed version (w\<lparr>Log := lg'\<rparr>) = Inr (x, w')
                   \<and> handler_f rx canon draw conf elapsed req w
                       = Inr (\<lparr>StatusCode = 200,
                               Body = Marshal
                                 \<lparr>Status = ''success'',
                                  Data = \<lparr>ResultType = ''vector'',
                                          Result = [[Float64 1556823494.744, Sprint x]]\<rparr>\<rparr>\<rparr>,
                              w'\<lparr>Log := Log w' @ [InfoVersion version]\<rparr>)))))
   \<and> (0 \<le> elapsed \<longrightarrow>
        (Rand_panics (gauge_Beta elapsed metric) \<longleftrightarrow> Alpha metric \<le> 0 \<or> Beta metric \<le> 0))
   \<and> (case handler_f rx canon draw conf elapsed req w of
        Inl e \<Rightarrow>
          e = SamplerPanic \<and> MatchHeaders canon conf req
          \<and> (\<exists>v\<in>set (Versions conf). spec_variant_matches rx req v)
      | Inr (resp, w') \<Rightarrow>
          (StatusCode resp = 401 \<longleftrightarrow> \<not> MatchHeaders canon conf req)
          \<and> (StatusCode resp = 500 \<longleftrightarrow>
                MatchHeaders canon conf req
              \<and> (\<forall>v\<in>set (Versions conf). \<not> spec_variant_matches rx req v))
          \<and> (StatusCode resp = 200 \<longleftrightarrow>
                MatchHeaders canon conf req
              \<and> (\<exists>v\<in>set (Versions conf). spec_variant_matches rx req v)))"
proof -
  obtain lg' where g: "GetVersion rx conf req (Log w) =
      Inr (find (spec_variant_matches rx req) (Versions conf), lg')"
    using GetVersion_find [of rx conf req "Log w"] by blast
  have a: "\<not> MatchHeaders canon conf req \<longrightarrow>
      handler_f rx canon draw conf elapsed req w
        = Inr (\<lparr>StatusCode = 401, Body = Bytes ''headers are not matching''\<rparr>, w)
      \<and> (\<forall>vs. handler_f rx canon draw (conf\<lparr>Versions := vs\<rparr>) elapsed req w
                = handler_f rx canon draw conf elapsed req w)"
    by (simp add: handler_f_def MatchHeaders_def)
  have b: "MatchHeaders canon conf req
       \<and> (\<forall>v\<in>set (Versions conf). \<not> spec_variant_matches rx req v) \<longrightarrow>
      (\<exists>lg'. GetVersion rx conf req (Log w) = Inr (None, lg')
         \<and> handler_f rx canon draw conf elapsed req w
             = Inr (\<lparr>StatusCode = 500,
                     Body = Bytes ''500 - cannot find any matching version in request!''\<rparr>,
                    w\<lparr>Log := lg'\<rparr>))"
  proof
    assume h: "MatchHeaders canon conf req
       \<and> (\<forall>v\<in>set (Versions conf). \<not> spec_variant_matches rx req v)"
    then have "find (spec_variant_matches rx req) (Versions conf) = None"
      by (simp add: find_None_iff)
    with g h show "\<exists>lg'. GetVersion rx conf req (Log w) = Inr (None, lg')
         \<and> handler_f rx canon draw conf elapsed req w
             = Inr (\<lparr>StatusCode = 500,
                     Body = Bytes ''500 - cannot find any matching version in request!''\<rparr>,
                    w\<lparr>Log := lg'\<rparr>)"
      by (simp add: handler_f_def)
  qed
  have c: "MatchHeaders canon conf req
       \<and> (\<exists>v\<in>set (Versions conf). spec_variant_matches rx req v) \<longrightarrow>
      (\<exists>version lg'.
           GetVersion rx conf req (Log w) = Inr (Some version, lg')
         \<and> (if Type (Metric version) = ''gauge''
                \<and> Rand_panics (gauge_Beta elapsed (Metric version))
             then handler_f rx canon draw conf elapsed req w = Inl SamplerPanic
             else (\<exists>x w'.
                     getValue draw elapsed version (w\<lparr>Log := lg'\<rparr>) = Inr (x, w')
                   \<and> handler_f rx canon draw conf elapsed req w
                       = Inr (\<lparr>StatusCode = 200,
                               Body = Marshal
                                 \<lparr>Status = ''success'',
                                  Data = \<lparr>ResultType = ''vector'',
                                          Result = [[Float64 1556823494.744, Sprint x]]\<rparr>\<rparr>\<rparr>,
                              w'\<lparr>Log := Log w' @ [InfoVersion version]\<rparr>))))"
  proof
    assume h: "MatchHeaders canon conf req
       \<and> (\<exists>v\<in>set (Versions conf). spec_variant_matches rx req v)"
    then obtain version where f: "find (spec_variant_matches rx req) (Versions conf) = Some version"
      by (cases "find (spec_variant_matches rx req) (Versions conf)") (auto simp: find_None_iff)
    have gv: "GetVersion rx conf req (Log w) = Inr (Some version, lg')"
      using g f by simp
    have "if Type (Metric version) = ''gauge''
                \<and> Rand_panics (gauge_Beta elapsed (Metric version))
             then handler_f rx canon draw conf elapsed req w = Inl SamplerPanic
             else (\<exists>x w'.
                     getValue draw elapsed version (w\<lparr>Log := lg'\<rparr>) = Inr (x, w')
                   \<and> handler_f rx canon draw conf elapsed req w
                       = Inr (\<lparr>StatusCode = 200,
                               Body = Marshal
                                 \<lparr>Status = ''success'',
                                  Data = \<lparr>ResultType = ''vector'',
                                          Result = [[Float64 1556823494.744, Sprint x]]\<rparr>\<rparr>\<rparr>,
                              w'\<lparr>Log := Log w' @ [InfoVersion version]\<rparr>))"
    proof (cases "Type (Metric version) = ''gauge''
                \<and> Rand_panics (gauge_Beta elapsed (Metric version))")
      case True
      then have "getValue draw elapsed version (w\<lparr>Log := lg'\<rparr>) = Inl SamplerPanic"
        by (simp add: getValue_panic)
      with True h gv show ?thesis
        by (simp add: handler_f_def)
    next
      case False
      from getValue_returns [OF False, of draw "w\<lparr>Log := lg'\<rparr>"]
      obtain x w' where "getValue draw elapsed version (w\<lparr>Log := lg'\<rparr>) = Inr (x, w')"
        by blast
      with False h gv show ?thesis
        by (simp add: handler_f_def)
    qed
    with gv show "\<exists>version lg'.
           GetVersion rx conf req (Log w) = Inr (Some version, lg')
         \<and> (if Type (Metric version) = ''gauge''
                \<and> Rand_panics (gauge_Beta elapsed (Metric version))
             then handler_f rx canon draw conf elapsed req w = Inl SamplerPanic
             else (\<exists>x w'.
                     getValue draw elapsed version (w\<lparr>Log := lg'\<rparr>) = Inr (x, w')
                   \<and> handler_f rx canon draw conf elapsed req w
                       = Inr (\<lparr>StatusCode = 200,
                               Body = Marshal
                                 \<lparr>Status = ''success'',
                                  Data = \<lparr>ResultType = ''vector'',
                                          Result = [[Float64 1556823494.744, Sprint x]]\<rparr>\<rparr>\<rparr>,
                              w'\<lparr>Log := Log w' @ [InfoVersion version]\<rparr>)))"
      by (intro exI conjI)
  qed
  have d: "0 \<le> elapsed \<longrightarrow>
        (Rand_panics (gauge_Beta elapsed metric) \<longleftrightarrow> Alpha metric \<le> 0 \<or> Beta metric \<le> 0)"
    using Rand_panics_gauge_Beta by blast
  have e: "case handler_f rx canon draw conf elapsed req w of
        Inl e \<Rightarrow>
          e = SamplerPanic \<and> MatchHeaders canon conf req
          \<and> (\<exists>v\<in>set (Versions conf). spec_variant_matches rx req v)
      | Inr (resp, w') \<Rightarrow>
          (StatusCode resp = 401 \<longleftrightarrow> \<not> MatchHeaders canon conf req)
          \<and> (StatusCode resp = 500 \<longleftrightarrow>
                MatchHeaders canon conf req
              \<and> (\<forall>v\<in>set (Versions conf). \<not> spec_variant_matches rx req v))
          \<and> (StatusCode resp = 200 \<longleftrightarrow>
                MatchHeaders canon conf req
              \<and> (\<exists>v\<in>set (Versions conf). spec_variant_matches rx req v))"
  proof (cases "MatchHeaders canon conf req")
    case False
    with a show ?thesis by simp
  next
    case True
    show ?thesis
    proof (cases "\<exists>v\<in>set (Versions conf). spec_variant_matches rx req v")
      case False
      with True b show ?thesis by auto
    next
      case ex: True
      with True c obtain version lg1 where
        k: "if Type (Metric version) = ''gauge''
                \<and> Rand_panics (gauge_Beta elapsed (Metric version))
             then handler_f rx canon draw conf elapsed req w = Inl SamplerPanic
             else (\<exists>x w'.
                     getValue draw elapsed version (w\<lparr>Log := lg1\<rparr>) = Inr (x, w')
                   \<and> handler_f rx canon draw conf elapsed req w
                       = Inr (\<lparr>StatusCode = 200,
                               Body = Marshal
                                 \<lparr>Status = ''success'',
                                  Data = \<lparr>ResultType = ''vector'',
                                          Result = [[Float64 1556823494.744, Sprint x]]\<rparr>\<rparr>\<rparr>,
                              w'\<lparr>Log := Log w' @ [InfoVersion version]\<rparr>))"
        by blast
      show ?thesis
      proof (cases "Type (Metric version) = ''gauge''
                \<and> Rand_panics (gauge_Beta elapsed (Metric version))")
        case p: True
        with k have "handler_f rx canon draw conf elapsed req w = Inl SamplerPanic"
          by simp
        with True ex show ?thesis by simp
      next
        case False
        with k obtain x w' where "handler_f rx canon draw conf elapsed req w
                       = Inr (\<lparr>StatusCode = 200,
                               Body = Marshal
                                 \<lparr>Status = ''success'',
                                  Data = \<lparr>ResultType = ''vector'',
                                          Result = [[Float64 1556823494.744, Sprint x]]\<rparr>\<rparr>\<rparr>,
                              w'\<lparr>Log := Log w' @ [InfoVersion version]\<rparr>)"
          by auto
        with True ex show ?thesis by simp
      qed
    qed
  qed
  show ?thesis
    by (intro conjI a b c d e)
qed

theorem handler_outcomes_witness:
  "\<not> MatchHeaders id example_conf anonymous_req
   \<and> handler_f example_Match id mean_draw example_conf (10 * 1000000000) anonymous_req start_World
       = Inr (\<lparr>StatusCode = 401, Body = Bytes ''headers are not matching''\<rparr>, start_World)
   \<and> MatchHeaders id example_conf canary_req
   \<and> \<not> spec_variant_matches example_Match canary_req stable_version
   \<and> (\<exists>lg'. handler_f example_Match id mean_draw (example_conf\<lparr>Versions := [stable_version]\<rparr>)
               (10 * 1000000000) canary_req start_World
       = Inr (\<lparr>StatusCode = 500,
               Body = Bytes ''500 - cannot find any matching version in request!''\<rparr>,
              start_World\<lparr>Log := lg'\<rparr>))
   \<and> spec_variant_matches example_Match canary_req canary_version
   \<and> (\<exists>w'. handler_f example_Match id mean_draw example_conf (10 * 1000000000) canary_req
              start_World
       = Inr (\<lparr>StatusCode = 200,
               Body = Marshal
                 \<lparr>Status = ''success'',
                  Data = \<lparr>ResultType = ''vector'',
                          Result = [[Float64 1556823494.744, Sprint (Num 20)]]\<rparr>\<rparr>\<rparr>,
              w'))
   \<and> MatchHeaders id zero_gauge_conf canary_req
   \<and> spec_variant_matches example_Match canary_req zero_gauge_version
   \<and> handler_f example_Match id mean_draw zero_gauge_conf (10 * 1000000000) canary_req
        start_World = Inl SamplerPanic"
proof -
  note t1 = handler_outcomes [of id example_conf anonymous_req example_Match mean_draw
      "10 * 1000000000" start_World "Metric zero_gauge_version"]
  note t2 = handler_outcomes [of id "example_conf\<lparr>Versions := [stable_version]\<rparr>" canary_req
      example_Match mean_draw "10 * 1000000000" start_World "Metric zero_gauge_version"]
  note t3 = handler_outcomes [of id example_conf canary_req example_Match mean_draw
      "10 * 1000000000" start_World "Metric zero_gauge_version"]
  note t4 = handler_outcomes [of id zero_gauge_conf canary_req example_Match mean_draw
      "10 * 1000000000" start_World "Metric zero_gauge_version"]
  have a: "\<not> MatchHeaders id example_conf anonymous_req"
    by (simp add: MatchHeaders_def example_conf_def anonymous_req_def Get_def)
  have b: "handler_f example_Match id mean_draw example_conf (10 * 1000000000) anonymous_req
        start_World
       = Inr (\<lparr>StatusCode = 401, Body = Bytes ''headers are not matching''\<rparr>, start_World)"
    using t1 [THEN conjunct1, rule_format, OF a] by (rule conjunct1)
  have c: "MatchHeaders id example_conf canary_req"
    by (rule MatchHeaders_canary)
  have c': "MatchHeaders id (example_conf\<lparr>Versions := [stable_version]\<rparr>) canary_req"
    using c by (simp add: MatchHeaders_def)
  have d: "\<not> spec_variant_matches example_Match canary_req stable_version"
    by (rule not_matches_stable)
  have e: "\<exists>lg'. handler_f example_Match id mean_draw (example_conf\<lparr>Versions := [stable_version]\<rparr>)
               (10 * 1000000000) canary_req start_World
       = Inr (\<lparr>StatusCode = 500,
               Body = Bytes ''500 - cannot find any matching version in request!''\<rparr>,
              start_World\<lparr>Log := lg'\<rparr>)"
    using t2 [THEN conjunct2, THEN conjunct1, rule_format] c' d by auto
  have f: "spec_variant_matches example_Match canary_req canary_version"
    by (rule matches_canary)
  have "MatchHeaders id example_conf canary_req
      \<and> (\<exists>v\<in>set (Versions example_conf). spec_variant_matches example_Match canary_req v)"
    using c f by (auto simp: example_conf_def)
  from t3 [THEN conjunct2, THEN conjunct2, THEN conjunct1, rule_format, OF this]
  obtain version lg' where
    g1: "GetVersion example_Match example_conf canary_req (Log start_World) = Inr (Some version, lg')"
    and g2: "if Type (Metric version) = ''gauge''
                \<and> Rand_panics (gauge_Beta (10 * 1000000000) (Metric version))
             then handler_f example_Match id mean_draw example_conf (10 * 1000000000) canary_req
                    start_World = Inl SamplerPanic
             else (\<exists>x w'.
                     getValue mean_draw (10 * 1000000000) version (start_World\<lparr>Log := lg'\<rparr>)
                       = Inr (x, w')
                   \<and> handler_f example_Match id mean_draw example_conf (10 * 1000000000)
                       canary_req start_World
                       = Inr (\<lparr>StatusCode = 200,
                               Body = Marshal
                                 \<lparr>Status = ''success'',
                                  Data = \<lparr>ResultType = ''vector'',
                                          Result = [[Float64 1556823494.744, Sprint x]]\<rparr>\<rparr>\<rparr>,
                              w'\<lparr>Log := Log w' @ [InfoVersion version]\<rparr>))"
    by blast
  from g1 have v: "version = canary_version"
    by (simp add: start_World_def GetVersion_canary)
  have nc: "Type (Metric canary_version) \<noteq> ''gauge''"
    by (simp add: canary_version_def)
  from g2 [unfolded v] nc obtain x w' where
    x1: "getValue mean_draw (10 * 1000000000) canary_version (start_World\<lparr>Log := lg'\<rparr>)
           = Inr (x, w')"
    and x2: "handler_f example_Match id mean_draw example_conf (10 * 1000000000)
                       canary_req start_World
                       = Inr (\<lparr>StatusCode = 200,
                               Body = Marshal
                                 \<lparr>Status = ''success'',
                                  Data = \<lparr>ResultType = ''vector'',
                                          Result = [[Float64 1556823494.744, Sprint x]]\<rparr>\<rparr>\<rparr>,
                              w'\<lparr>Log := Log w' @ [InfoVersion canary_version]\<rparr>)"
    by auto
  from x1 have "x = Num 20"
    by (simp add: getValue_def canary_version_def Seconds_eq)
  with x2 have g: "\<exists>w'. handler_f example_Match id mean_draw example_conf (10 * 1000000000)
              canary_req start_World
       = Inr (\<lparr>StatusCode = 200,
               Body = Marshal
                 \<lparr>Status = ''success'',
                  Data = \<lparr>ResultType = ''vector'',
                          Result = [[Float64 1556823494.744, Sprint (Num 20)]]\<rparr>\<rparr>\<rparr>,
              w')"
    by simp
  have h: "MatchHeaders id zero_gauge_conf canary_req"
    by (rule MatchHeaders_zero_gauge)
  have i: "spec_variant_matches example_Match canary_req zero_gauge_version"
    by (simp add: spec_variant_matches_def zero_gauge_version_def)
  have "MatchHeaders id zero_gauge_conf canary_req
      \<and> (\<exists>v\<in>set (Versions zero_gauge_conf). spec_variant_matches example_Match canary_req v)"
    using h i by (auto simp: zero_gauge_conf_def)
  from t4 [THEN conjunct2, THEN conjunct2, THEN conjunct1, rule_format, OF this]
  obtain version2 lg2 where
    z1: "GetVersion example_Match zero_gauge_conf canary_req (Log start_World)
           = Inr (Some version2, lg2)"
    and z2: "if Type (Metric version2) = ''gauge''
                \<and> Rand_panics (gauge_Beta (10 * 1000000000) (Metric version2))
             then handler_f example_Match id mean_draw zero_gauge_conf (10 * 1000000000) canary_req
                    start_World = Inl SamplerPanic
             else (\<exists>x w'.
                     getValue mean_draw (10 * 1000000000) version2 (start_World\<lparr>Log := lg2\<rparr>)
                       = Inr (x, w')
                   \<and> handler_f example_Match id mean_draw zero_gauge_conf (10 * 1000000000)
                       canary_req start_World
                       = Inr (\<lparr>StatusCode = 200,
                               Body = Marshal
                                 \<lparr>Status = ''success'',
                                  Data = \<lparr>ResultType = ''vector'',
                                          Result = [[Float64 1556823494.744, Sprint x]]\<rparr>\<rparr>\<rparr>,
                              w'\<lparr>Log := Log w' @ [InfoVersion version2]\<rparr>))"
    by blast
  obtain lg3 where "GetVersion example_Match zero_gauge_conf canary_req (Log start_World)
      = Inr (Some zero_gauge_version, lg3)"
    using GetVersion_find [of example_Match zero_gauge_conf canary_req "Log start_World"]
    by (auto simp: find_zero_gauge)
  with z1 have v2: "version2 = zero_gauge_version"
    by simp
  have zg: "Type (Metric zero_gauge_version) = ''gauge''"
    by (simp add: zero_gauge_version_def)
  from z2 [unfolded v2] zg Rand_panics_zero_gauge [of "10 * 1000000000"]
  have j: "handler_f example_Match id mean_draw zero_gauge_conf (10 * 1000000000) canary_req
        start_World = Inl SamplerPanic"
    by simp
  show ?thesis
    by (intro conjI a b c d e f g h i j)
qed

text \<open>
  The claim as it was stated, with three outcomes for every request, fails for an
  authorized request that resolves to a gauge whose \<^verbatim>\<open>alpha\<close> and \<^verbatim>\<open>beta\<close> are
  zero: the handler panics and answers nothing.
\<close>

theorem handler_outcomes_counterexample:
  "MatchHeaders id zero_gauge_conf canary_req
   \<and> find (spec_variant_matches example_Match canary_req) (Versions zero_gauge_conf)
       = Some zero_gauge_version
   \<and> handler_f example_Match id mean_draw zero_gauge_conf (10 * 1000000000) canary_req
        start_World = Inl SamplerPanic"
proof -
  have "getValue mean_draw (10 * 1000000000) zero_gauge_version w = Inl SamplerPanic" for w :: "nat World"
    by (rule getValue_panic) (simp add: zero_gauge_version_def, rule Rand_panics_zero_gauge)
  then have "handler_f example_Match id mean_draw zero_gauge_conf (10 * 1000000000) canary_req
        start_World = Inl SamplerPanic"
    by (simp add: handler_f_cases MatchHeaders_zero_gauge find_zero_gauge)
  with MatchHeaders_zero_gauge find_zero_gauge show ?thesis
    by simp
qed

text \<open>
  Claim C5. For a metric of type \<^verbatim>\<open>counter\<close>, \<^verbatim>\<open>getValue\<close> returns the elapsed
  seconds times the rate and changes neither the log nor the random source; the elapsed
  seconds are the duration divided by \<open>10\<^sup>9\<close>; with rate 2 after 10 seconds the
  value is 20; and the fields \<^verbatim>\<open>shift\<close>, \<^verbatim>\<open>multiplier\<close>, \<^verbatim>\<open>alpha\<close> and
  \<^verbatim>\<open>beta\<close> have no effect.
\<close>

theorem counter_value:
  "Type (Metric version) = ''counter'' \<longrightarrow>
     getValue draw elapsed version w = Inr (Num (Seconds elapsed * Rate (Metric version)), w)
     \<and> Seconds elapsed = real_of_int elapsed / 1000000000
     \<and> (Rate (Metric version) = 2.0 \<and> elapsed = 10 * 1000000000 \<longrightarrow>
          getValue draw elapsed version w = Inr (Num 20.0, w))
     \<and> (\<forall>shift multiplier alpha beta.
          getValue draw elapsed
            (version\<lparr>Metric := (Metric version)\<lparr>Shift := shift, Multiplier := multiplier,
                                                Alpha := alpha, Beta := beta\<rparr>\<rparr>) w
          = getValue draw elapsed version w)"
  by (simp add: getValue_def Seconds_eq)

theorem counter_value_witness:
  "Type (Metric canary_version) = ''counter''
   \<and> Rate (Metric canary_version) = 2.0
   \<and> Seconds (10 * 1000000000) = 10
   \<and> getValue mean_draw (10 * 1000000000) canary_version start_World
       = Inr (Num 20.0, start_World)"
proof -
  note t = counter_value [of canary_version mean_draw "10 * 1000000000" start_World]
  have a: "Type (Metric canary_version) = ''counter''"
    by (simp add: canary_version_def)
  have b: "Rate (Metric canary_version) = 2.0"
    by (simp add: canary_version_def)
  have c: "Seconds (10 * 1000000000) = 10"
    using t a by simp
  have d: "getValue mean_draw (10 * 1000000000) canary_version start_World
       = Inr (Num 20.0, start_World)"
    using t a b by simp
  show ?thesis
    by (intro conjI a b c d)
qed




text \<open>
  Claim C7. For a metric whose type is neither \<^verbatim>\<open>counter\<close> nor \<^verbatim>\<open>gauge\<close>,
  \<^verbatim>\<open>getValue\<close> returns 21.7639 whatever the other fields, the duration and the
  sampler are, and changes neither the log nor the random source; and a request that is
  authorized and resolves to such a version is answered with status 200 and that value,
  not with an error.
\<close>

theorem unrecognized_kind_fallback:
  "Type (Metric version) \<noteq> ''counter'' \<and> Type (Metric version) \<noteq> ''gauge'' \<longrightarrow>
     getValue draw elapsed version w = Inr (Num 21.7639, w)
     \<and> (MatchHeaders canon conf req
        \<and> find (spec_variant_matches rx req) (Versions conf) = Some version \<longrightarrow>
        (\<exists>w'. handler_f rx canon draw conf elapsed req w
           = Inr (\<lparr>StatusCode = 200,
                   Body = Marshal
                     \<lparr>Status = ''success'',
                      Data = \<lparr>ResultType = ''vector'',
                              Result = [[Float64 1556823494.744, Sprint (Num 21.7639)]]\<rparr>\<rparr>\<rparr>,
                  w')))"
  by (simp add: getValue_def handler_f_cases)

theorem unrecognized_kind_fallback_witness:
  "Type (Metric histogram_version) \<noteq> ''counter''
   \<and> Type (Metric histogram_version) \<noteq> ''gauge''
   \<and> getValue mean_draw 0 histogram_version start_World = Inr (Num 21.7639, start_World)
   \<and> MatchHeaders id (example_conf\<lparr>Versions := [histogram_version]\<rparr>) canary_req
   \<and> find (spec_variant_matches example_Match canary_req)
        (Versions (example_conf\<lparr>Versions := [histogram_version]\<rparr>)) = Some histogram_version
   \<and> (\<exists>w'. handler_f example_Match id mean_draw (example_conf\<lparr>Versions := [histogram_version]\<rparr>)
              0 canary_req start_World
       = Inr (\<lparr>StatusCode = 200,
               Body = Marshal
                 \<lparr>Status = ''success'',
                  Data = \<lparr>ResultType = ''vector'',
                          Result = [[Float64 1556823494.744, Sprint (Num 21.7639)]]\<rparr>\<rparr>\<rparr>,
              w'))"
proof -
  note t = unrecognized_kind_fallback [of histogram_version mean_draw 0 start_World id
      "example_conf\<lparr>Versions := [histogram_version]\<rparr>" canary_req example_Match, rule_format]
  have a: "Type (Metric histogram_version) \<noteq> ''counter''"
    by (simp add: histogram_version_def)
  have b: "Type (Metric histogram_version) \<noteq> ''gauge''"
    by (simp add: histogram_version_def)
  have ab: "Type (Metric histogram_version) \<noteq> ''counter''
      \<and> Type (Metric histogram_version) \<noteq> ''gauge''"
    using a b by simp
  have c: "getValue mean_draw 0 histogram_version start_World = Inr (Num 21.7639, start_World)"
    using t [OF ab] by (rule conjunct1)
  have d: "MatchHeaders id (example_conf\<lparr>Versions := [histogram_version]\<rparr>) canary_req"
    using MatchHeaders_canary by (simp add: MatchHeaders_def)
  have e: "find (spec_variant_matches example_Match canary_req)
        (Versions (example_conf\<lparr>Versions := [histogram_version]\<rparr>)) = Some histogram_version"
    by (simp add: spec_variant_matches_def histogram_version_def)
  have de: "MatchHeaders id (example_conf\<lparr>Versions := [histogram_version]\<rparr>) canary_req
      \<and> find (spec_variant_matches example_Match canary_req)
        (Versions (example_conf\<lparr>Versions := [histogram_version]\<rparr>)) = Some histogram_version"
    using d e by (rule conjI)
  have f: "\<exists>w'. handler_f example_Match id mean_draw (example_conf\<lparr>Versions := [histogram_version]\<rparr>)
              0 canary_req start_World
       = Inr (\<lparr>StatusCode = 200,
               Body = Marshal
                 \<lparr>Status = ''success'',
                  Data = \<lparr>ResultType = ''vector'',
                          Result = [[Float64 1556823494.744, Sprint (Num 21.7639)]]\<rparr>\<rparr>\<rparr>,
              w')"
    using t [OF ab, THEN conjunct2, rule_format, OF de] .
  show ?thesis
    by (intro conjI a b c d e f)
qed

text \<open>
  Claim C8. A constraint whose pattern does not compile is not satisfied, and the inner
  loop clears \<open>found\<close> for the version that holds it. \<^verbatim>\<open>GetVersion\<close> returns
  normally, and returns what it returns for the list without that version, so the later
  versions are still tried. The handler answers the request as it answers it for the
  configuration without that version: the same response and the same state of the random
  source, or the same panic. So the pattern error shows in the log only: it changes
  neither the status nor the body, and it is not the cause of a panic.
\<close>

theorem pattern_error_disqualifies_variant_only:
  assumes "p \<in> set (Params v)" and "\<forall>b. \<exists>e. rx (Value p) b = Inl e"
  shows "\<not> spec_constraint_satisfied rx req p
     \<and> (\<exists>lg'. params_loop rx req (Params v) True lg = Inr (False, lg'))
     \<and> (\<exists>r lg1 lg2.
           GetVersion rx (u\<lparr>Versions := pre @ v # rest\<rparr>) req lg = Inr (r, lg1)
         \<and> GetVersion rx (u\<lparr>Versions := pre @ rest\<rparr>) req lg = Inr (r, lg2)
         \<and> r \<noteq> Some v)
     \<and> observable (handler_f rx canon draw (u\<lparr>Versions := pre @ v # rest\<rparr>) elapsed req w)
         = observable (handler_f rx canon draw (u\<lparr>Versions := pre @ rest\<rparr>) elapsed req w)"
proof -
  have ns: "\<not> spec_constraint_satisfied rx req p"
  proof
    assume "spec_constraint_satisfied rx req p"
    then obtain v0 where m: "rx (Value p) v0 = Inr True"
      by (auto simp: spec_constraint_satisfied_iff)
    from assms(2) obtain e where "rx (Value p) v0 = Inl e"
      by blast
    with m show False by simp
  qed
  with assms(1) have nm: "\<not> spec_variant_matches rx req v"
    by (auto simp: spec_variant_matches_def list_all_iff)
  have a: "\<exists>lg'. params_loop rx req (Params v) True lg = Inr (False, lg')"
    using params_loop_found [of rx req "Params v" True lg] nm
    by (simp add: spec_variant_matches_def)
  obtain lg1 where g1: "GetVersion rx (u\<lparr>Versions := pre @ v # rest\<rparr>) req lg =
      Inr (find (spec_variant_matches rx req) (pre @ v # rest), lg1)"
    using GetVersion_find [of rx "u\<lparr>Versions := pre @ v # rest\<rparr>" req lg] by auto
  obtain lg2 where g2: "GetVersion rx (u\<lparr>Versions := pre @ rest\<rparr>) req lg =
      Inr (find (spec_variant_matches rx req) (pre @ rest), lg2)"
    using GetVersion_find [of rx "u\<lparr>Versions := pre @ rest\<rparr>" req lg] by auto
  have ne: "find (spec_variant_matches rx req) (pre @ rest) \<noteq> Some v"
    using nm by (auto simp: find_Some_iff)
  have sk: "find (spec_variant_matches rx req) (pre @ v # rest)
      = find (spec_variant_matches rx req) (pre @ rest)"
    using find_skip_unmatched [of "spec_variant_matches rx req" v pre rest, OF nm] .
  have b: "\<exists>r lg1 lg2.
           GetVersion rx (u\<lparr>Versions := pre @ v # rest\<rparr>) req lg = Inr (r, lg1)
         \<and> GetVersion rx (u\<lparr>Versions := pre @ rest\<rparr>) req lg = Inr (r, lg2)
         \<and> r \<noteq> Some v"
    using g1 g2 ne sk by auto
  have mh: "MatchHeaders canon (u\<lparr>Versions := pre @ v # rest\<rparr>) req
      = MatchHeaders canon (u\<lparr>Versions := pre @ rest\<rparr>) req"
    by (simp add: MatchHeaders_def)
  have c: "observable (handler_f rx canon draw (u\<lparr>Versions := pre @ v # rest\<rparr>) elapsed req w)
         = observable (handler_f rx canon draw (u\<lparr>Versions := pre @ rest\<rparr>) elapsed req w)"
    unfolding observable_handler_f mh by (simp add: sk)
  show ?thesis
    by (intro conjI ns a b c)
qed

theorem pattern_error_disqualifies_variant_only_witness:
  "\<lparr>Name = ''version'', Value = ''(''\<rparr> \<in> set (Params broken_version)
   \<and> (\<forall>b. \<exists>e. example_Match ''('' b = Inl e)
   \<and> \<not> spec_constraint_satisfied example_Match canary_req \<lparr>Name = ''version'', Value = ''(''\<rparr>
   \<and> (\<exists>lg'. params_loop example_Match canary_req (Params broken_version) True [] = Inr (False, lg'))
   \<and> (\<exists>lg'. GetVersion example_Match
              (example_conf\<lparr>Versions := [stable_version, broken_version, canary_version]\<rparr>)
              canary_req [] = Inr (Some canary_version, lg'))
   \<and> observable (handler_f example_Match id mean_draw
              (example_conf\<lparr>Versions := [stable_version, broken_version, canary_version]\<rparr>)
              (10 * 1000000000) canary_req start_World)
       = Inr (\<lparr>StatusCode = 200,
               Body = Marshal
                 \<lparr>Status = ''success'',
                  Data = \<lparr>ResultType = ''vector'',
                          Result = [[Float64 1556823494.744, Sprint (Num 20)]]\<rparr>\<rparr>\<rparr>,
              0)
   \<and> observable (handler_f example_Match id mean_draw zero_gauge_conf
              (10 * 1000000000) canary_req start_World)
       = observable (handler_f example_Match id mean_draw
              (example_conf\<lparr>Versions := [zero_gauge_version]\<rparr>)
              (10 * 1000000000) canary_req start_World)"
proof -
  let ?p = "\<lparr>Name = ''version'', Value = ''(''\<rparr>"
  have h1: "?p \<in> set (Params broken_version)"
    by (simp add: broken_version_def)
  have h2: "\<forall>b. \<exists>e. example_Match (Value ?p) b = Inl e"
    by (simp add: example_Match_def)
  note t = pattern_error_disqualifies_variant_only [where p = ?p and v = broken_version
      and rx = example_Match and req = canary_req
      and lg = "[]" and u = example_conf and pre = "[stable_version]" and rest = "[canary_version]"
      and canon = id and draw = mean_draw and elapsed = "10 * 1000000000"
      and w = start_World, OF h1 h2]
  note t0 = pattern_error_disqualifies_variant_only [where p = ?p and v = broken_version
      and rx = example_Match and req = canary_req
      and lg = "[]" and u = example_conf and pre = "[]" and rest = "[zero_gauge_version]"
      and canon = id and draw = mean_draw and elapsed = "10 * 1000000000"
      and w = start_World, OF h1 h2]
  have h2': "\<forall>b. \<exists>e. example_Match ''('' b = Inl e"
    using h2 by simp
  from t have a: "\<not> spec_constraint_satisfied example_Match canary_req ?p"
    by (rule conjunct1)
  from t have b: "\<exists>lg'. params_loop example_Match canary_req (Params broken_version) True [] =
      Inr (False, lg')"
    by simp
  from t obtain r lg1 lg2 where
    r1: "GetVersion example_Match
           (example_conf\<lparr>Versions := [stable_version, broken_version, canary_version]\<rparr>)
           canary_req [] = Inr (r, lg1)"
    and r2: "GetVersion example_Match (example_conf\<lparr>Versions := [stable_version, canary_version]\<rparr>)
           canary_req [] = Inr (r, lg2)"
    by auto
  have "GetVersion example_Match (example_conf\<lparr>Versions := [stable_version, canary_version]\<rparr>)
           canary_req [] = Inr (Some canary_version,
             [Warn ''found no match for ... version'', Warn ''stable'', Warn ''canary'',
              Info ''found match for ... version'', Info ''canary'', Info ''canary''])"
    by (simp add: GetVersion_def stable_version_def canary_version_def canary_req_def Query_def
        example_Match_def)
  with r2 have "r = Some canary_version" by simp
  with r1 have c: "\<exists>lg'. GetVersion example_Match
              (example_conf\<lparr>Versions := [stable_version, broken_version, canary_version]\<rparr>)
              canary_req [] = Inr (Some canary_version, lg')"
    by simp
  have mh: "MatchHeaders id (example_conf\<lparr>Versions := [stable_version, canary_version]\<rparr>) canary_req"
    using MatchHeaders_canary by (simp add: MatchHeaders_def)
  have fd: "find (spec_variant_matches example_Match canary_req)
      (Versions (example_conf\<lparr>Versions := [stable_version, canary_version]\<rparr>)) = Some canary_version"
    using not_matches_stable matches_canary by simp
  have gv: "getValue mean_draw (10 * 1000000000) canary_version start_World
      = Inr (Num 20, start_World)"
    by (simp add: getValue_def canary_version_def Seconds_eq)
  have o: "observable (handler_f example_Match id mean_draw
              (example_conf\<lparr>Versions := [stable_version, canary_version]\<rparr>)
              (10 * 1000000000) canary_req start_World)
       = Inr (\<lparr>StatusCode = 200,
               Body = Marshal
                 \<lparr>Status = ''success'',
                  Data = \<lparr>ResultType = ''vector'',
                          Result = [[Float64 1556823494.744, Sprint (Num 20)]]\<rparr>\<rparr>\<rparr>,
              0)"
    unfolding observable_handler_f using mh fd gv by (simp add: start_World_def)
  from t have "observable (handler_f example_Match id mean_draw
              (example_conf\<lparr>Versions := [stable_version] @ broken_version # [canary_version]\<rparr>)
              (10 * 1000000000) canary_req start_World)
       = observable (handler_f example_Match id mean_draw
              (example_conf\<lparr>Versions := [stable_version] @ [canary_version]\<rparr>)
              (10 * 1000000000) canary_req start_World)"
    by (elim conjE)
  with o have d: "observable (handler_f example_Match id mean_draw
              (example_conf\<lparr>Versions := [stable_version, broken_version, canary_version]\<rparr>)
              (10 * 1000000000) canary_req start_World)
       = Inr (\<lparr>StatusCode = 200,
               Body = Marshal
                 \<lparr>Status = ''success'',
                  Data = \<lparr>ResultType = ''vector'',
                          Result = [[Float64 1556823494.744, Sprint (Num 20)]]\<rparr>\<rparr>\<rparr>,
              0)"
    by simp
  from t0 have "observable (handler_f example_Match id mean_draw
              (example_conf\<lparr>Versions := [] @ broken_version # [zero_gauge_version]\<rparr>)
              (10 * 1000000000) canary_req start_World)
       = observable (handler_f example_Match id mean_draw
              (example_conf\<lparr>Versions := [] @ [zero_gauge_version]\<rparr>)
              (10 * 1000000000) canary_req start_World)"
    by (elim conjE)
  then have e: "observable (handler_f example_Match id mean_draw zero_gauge_conf
              (10 * 1000000000) canary_req start_World)
       = observable (handler_f example_Match id mean_draw
              (example_conf\<lparr>Versions := [zero_gauge_version]\<rparr>)
              (10 * 1000000000) canary_req start_World)"
    by (simp add: zero_gauge_conf_def)
  show ?thesis
    by (intro conjI h1 h2' a b c d e)
qed

text \<open>
  Claim C9. A required header that the request does not carry reads as the empty string,
  and \<^verbatim>\<open>MatchHeaders\<close> gives the same result for the request as for the request
  with that header present and empty. When the other required headers are satisfied, a
  request without the header passes exactly when the configured value is the empty
  string; for a configured value that is not empty, a request without the header and a
  request with another value both fail.
\<close>

theorem missing_header_is_empty_header:
  "(Header req (canon k) = None \<longrightarrow>
      Get canon (Header req) k = []
      \<and> MatchHeaders canon u req
          = MatchHeaders canon u (req\<lparr>Header := (Header req)(canon k \<mapsto> [[]])\<rparr>))
   \<and> (Header req (canon k) = None \<and> (k, v) \<in> set (Headers u)
       \<and> (\<forall>(k', v')\<in>set (Headers u). (k', v') \<noteq> (k, v) \<longrightarrow> Get canon (Header req) k' = v')
       \<longrightarrow> (MatchHeaders canon u req \<longleftrightarrow> v = []))
   \<and> ((k, v) \<in> set (Headers u) \<and> v \<noteq> []
       \<and> (Header req (canon k) = None \<or> Get canon (Header req) k \<noteq> v)
       \<longrightarrow> \<not> MatchHeaders canon u req)"
proof -
  have a: "Header req (canon k) = None \<longrightarrow>
      Get canon (Header req) k = []
      \<and> MatchHeaders canon u req
          = MatchHeaders canon u (req\<lparr>Header := (Header req)(canon k \<mapsto> [[]])\<rparr>)"
    by (simp add: MatchHeaders_iff Get_absent Get_absent_as_empty)
  have b: "Header req (canon k) = None \<and> (k, v) \<in> set (Headers u)
       \<and> (\<forall>(k', v')\<in>set (Headers u). (k', v') \<noteq> (k, v) \<longrightarrow> Get canon (Header req) k' = v')
       \<longrightarrow> (MatchHeaders canon u req \<longleftrightarrow> v = [])"
  proof
    assume h: "Header req (canon k) = None \<and> (k, v) \<in> set (Headers u)
       \<and> (\<forall>(k', v')\<in>set (Headers u). (k', v') \<noteq> (k, v) \<longrightarrow> Get canon (Header req) k' = v')"
    then have g: "Get canon (Header req) k = []"
      by (simp add: Get_absent)
    show "MatchHeaders canon u req \<longleftrightarrow> v = []"
    proof
      assume "MatchHeaders canon u req"
      with h have "Get canon (Header req) k = v"
        by (auto simp: MatchHeaders_iff)
      with g show "v = []" by simp
    next
      assume "v = []"
      with h g show "MatchHeaders canon u req"
        by (fastforce simp: MatchHeaders_iff)
    qed
  qed
  have c: "(k, v) \<in> set (Headers u) \<and> v \<noteq> []
       \<and> (Header req (canon k) = None \<or> Get canon (Header req) k \<noteq> v)
       \<longrightarrow> \<not> MatchHeaders canon u req"
    by (auto dest: MatchHeaders_entry simp: Get_absent)
  show ?thesis
    by (intro conjI a b c)
qed

theorem missing_header_is_empty_header_witness:
  "Header anonymous_req (id ''Authorization'') = None
   \<and> Get id (Header anonymous_req) ''Authorization'' = []
   \<and> MatchHeaders id example_conf anonymous_req
       = MatchHeaders id example_conf
           (anonymous_req\<lparr>Header := (Header anonymous_req)(id ''Authorization'' \<mapsto> [[]])\<rparr>)
   \<and> MatchHeaders id (example_conf\<lparr>Headers := [(''Authorization'', [])]\<rparr>) anonymous_req
   \<and> \<not> MatchHeaders id example_conf anonymous_req"
proof -
  note t1 = missing_header_is_empty_header [of anonymous_req id "''Authorization''" example_conf
      "''Bearer t0ken''"]
  note t2 = missing_header_is_empty_header [of anonymous_req id "''Authorization''"
      "example_conf\<lparr>Headers := [(''Authorization'', [])]\<rparr>" "[]"]
  have n: "Header anonymous_req (id ''Authorization'') = None"
    by (simp add: anonymous_req_def)
  have a: "Get id (Header anonymous_req) ''Authorization'' = []"
    using t1 n by blast
  have b: "MatchHeaders id example_conf anonymous_req
       = MatchHeaders id example_conf
           (anonymous_req\<lparr>Header := (Header anonymous_req)(id ''Authorization'' \<mapsto> [[]])\<rparr>)"
    using t1 n by blast
  have c: "MatchHeaders id (example_conf\<lparr>Headers := [(''Authorization'', [])]\<rparr>) anonymous_req"
    by (rule t2 [THEN conjunct2, THEN conjunct1, rule_format, THEN iffD2])
      (simp_all add: anonymous_req_def)
  have d: "\<not> MatchHeaders id example_conf anonymous_req"
    by (rule t1 [THEN conjunct2, THEN conjunct2, rule_format])
      (simp add: example_conf_def anonymous_req_def)
  show ?thesis
    by (intro conjI n a b c d)
qed

text \<open>
  Claim C10. \<^verbatim>\<open>getHandlerFunc\<close> panics with the message
  \<^verbatim>\<open>unknown provider: \<close> followed by the provider when the provider is any string
  other than \<^verbatim>\<open>Prometheus\<close>, and returns a handler exactly when the provider is
  \<^verbatim>\<open>Prometheus\<close>. When one of the configured endpoints has another provider, the
  loop of \<^verbatim>\<open>main\<close> that registers the handlers panics, so the process does not
  get to serve; a metric of an unknown type, by contrast, yields the fallback value.
\<close>

theorem unknown_provider_panics:
  "(Provider conf \<noteq> ''Prometheus'' \<longrightarrow>
      getHandlerFunc rx canon draw conf = Inl (Panic (''unknown provider: '' @ Provider conf)))
   \<and> (Provider conf = ''Prometheus'' \<longrightarrow>
      getHandlerFunc rx canon draw conf = Inr (handler_f rx canon draw conf))
   \<and> ((\<exists>f. getHandlerFunc rx canon draw conf = Inr f) \<longleftrightarrow> Provider conf = ''Prometheus'')
   \<and> ((\<exists>c\<in>set confs. Provider c \<noteq> ''Prometheus'') \<longrightarrow>
      (\<exists>e. register_loop HandleFunc rx canon draw confs mux = Inl e))
   \<and> (Type (Metric version) \<noteq> ''counter'' \<and> Type (Metric version) \<noteq> ''gauge'' \<longrightarrow>
      getValue draw elapsed version w = Inr (Num 21.7639, w))"
proof -
  have a: "Provider conf \<noteq> ''Prometheus'' \<longrightarrow>
      getHandlerFunc rx canon draw conf = Inl (Panic (''unknown provider: '' @ Provider conf))"
    by (simp add: getHandlerFunc_def)
  have b: "Provider conf = ''Prometheus'' \<longrightarrow>
      getHandlerFunc rx canon draw conf = Inr (handler_f rx canon draw conf)"
    by (simp add: getHandlerFunc_def)
  have c: "(\<exists>f. getHandlerFunc rx canon draw conf = Inr f) \<longleftrightarrow> Provider conf = ''Prometheus''"
    by (simp add: getHandlerFunc_def)
  have d: "(\<exists>c\<in>set confs. Provider c \<noteq> ''Prometheus'') \<longrightarrow>
      (\<exists>e. register_loop HandleFunc rx canon draw confs mux = Inl e)"
    using register_loop_panics [of confs HandleFunc rx canon draw mux] by blast
  have e: "Type (Metric version) \<noteq> ''counter'' \<and> Type (Metric version) \<noteq> ''gauge'' \<longrightarrow>
      getValue draw elapsed version w = Inr (Num 21.7639, w)"
    by (simp add: getValue_def)
  show ?thesis
    by (intro conjI a b c d e)
qed

theorem unknown_provider_panics_witness:
  "Provider (example_conf\<lparr>URI := ''/api/v2/query'', Provider := ''prometheus''\<rparr>) \<noteq> ''Prometheus''
   \<and> getHandlerFunc example_Match id mean_draw
        (example_conf\<lparr>URI := ''/api/v2/query'', Provider := ''prometheus''\<rparr>)
       = Inl (Panic ''unknown provider: prometheus'')
   \<and> Provider example_conf = ''Prometheus''
   \<and> getHandlerFunc example_Match id mean_draw example_conf
       = Inr (handler_f example_Match id mean_draw example_conf)
   \<and> (\<exists>e. register_loop (\<lambda>uri f mux. Inr (uri # mux)) example_Match id mean_draw
            [example_conf, example_conf\<lparr>URI := ''/api/v2/query'', Provider := ''prometheus''\<rparr>] []
          = Inl e)
   \<and> getValue mean_draw 0 histogram_version start_World = Inr (Num 21.7639, start_World)"
proof -
  let ?bad = "example_conf\<lparr>URI := ''/api/v2/query'', Provider := ''prometheus''\<rparr>"
  note t1 = unknown_provider_panics [of ?bad
      example_Match id mean_draw "[example_conf, ?bad]"
      "\<lambda>uri f mux. Inr (uri # mux)" "[]" histogram_version 0 start_World]
  note t2 = unknown_provider_panics [of example_conf
      example_Match id mean_draw "[example_conf, ?bad]"
      "\<lambda>uri f mux. Inr (uri # mux)" "[]" histogram_version 0 start_World]
  have a: "Provider ?bad \<noteq> ''Prometheus''"
    by simp
  have b: "getHandlerFunc example_Match id mean_draw ?bad
       = Inl (Panic ''unknown provider: prometheus'')"
    using t1 [THEN conjunct1, rule_format, OF a] by simp
  have c: "Provider example_conf = ''Prometheus''"
    by (simp add: example_conf_def)
  have d: "getHandlerFunc example_Match id mean_draw example_conf
       = Inr (handler_f example_Match id mean_draw example_conf)"
    using t2 [THEN conjunct2, THEN conjunct1, rule_format, OF c] .
  have e: "\<exists>e. register_loop (\<lambda>uri f mux. Inr (uri # mux)) example_Match id mean_draw
            [example_conf, ?bad] [] = Inl e"
    using t1 [THEN conjunct2, THEN conjunct2, THEN conjunct2, THEN conjunct1] by simp
  have k: "Type (Metric histogram_version) \<noteq> ''counter''
      \<and> Type (Metric histogram_version) \<noteq> ''gauge''"
    by (simp add: histogram_version_def)
  have f: "getValue mean_draw 0 histogram_version start_World = Inr (Num 21.7639, start_World)"
    using t1 [THEN conjunct2, THEN conjunct2, THEN conjunct2, THEN conjunct2, rule_format, OF k] .
  show ?thesis
    by (intro conjI a b c d e f)
qed

end
